theory Spec2Isabelle
  imports Complex_Main "HOL-Library.Multiset" "HOL-Library.Product_Lexorder"
begin

section \<open>StockLogo: the recommendation system of run\_system.py\<close>

text \<open>
  The theory embeds the class \<open>RecommendationSystem\<close> of \<^verbatim>\<open>src/run_system.py\<close>:
  the catalog construction of \<open>__init__\<close> (lines 43-59), \<open>download_logos\<close>,
  \<open>average_color_from_histogram\<close>, \<open>get_rgb_distance\<close> and
  \<open>get_recommendation\<close>. Python exceptions are values of \<open>py_error\<close> and a
  function that can raise returns \<open>py_error + result\<close>. Mutation of \<open>self\<close> is
  explicit state passing over the record \<open>system\<close>; the file system and the log are
  the record \<open>world\<close>; the network (\<open>env\<close>) and the two library functions of the
  ranking (\<open>library\<close>) are parameters.

  Numbers: bucket counts are Python ints (\<open>int\<close>). Python's true division of two
  ints yields the float nearest to the exact quotient; the model keeps the exact
  quotient as a rational, so signatures and distances are \<open>rat\<close>.
\<close>

subsection \<open>Errors, images, files\<close>

datatype py_error =
  ZeroDivisionError | TypeError | IndexError | KeyError | ValueError | OSError | URLError
  | UnidentifiedImageError

text \<open>A decoded PIL image. The program reads an image only through \<open>histogram()\<close>,
  a list of bucket counts, 256 per band.\<close>

datatype pil_image = Image (histogram: "int list")

text \<open>The bytes of a file or of an HTTP response: either they decode to an image or
  \<open>Image.open\<close> raises on them. (A file whose header opens and whose pixel data
  fails only when it is loaded is not modelled.)\<close>

datatype blob = Picture pil_image | Garbage

record world =
  files :: "string \<rightharpoonup> blob"
  log_lines :: "string list"

text \<open>The collaborators outside the process: \<open>urllib.request.urlopen\<close> and whether
  a path can be written by \<open>Image.save\<close>.\<close>

record env =
  urlopen :: "string \<Rightarrow> py_error + blob"
  writable :: "string \<Rightarrow> bool"

definition LOGO_CACHE :: string where
  "LOGO_CACHE = ''static/logo_cache''"

definition isfile :: "world \<Rightarrow> string \<Rightarrow> bool" where
  "isfile w p = (files w p \<noteq> None)"

definition decode :: "blob \<Rightarrow> py_error + pil_image" where
  "decode b = (case b of Picture i \<Rightarrow> Inr i | Garbage \<Rightarrow> Inl UnidentifiedImageError)"

definition Image_open :: "world \<Rightarrow> string \<Rightarrow> py_error + pil_image" where
  "Image_open w p = (case files w p of None \<Rightarrow> Inl OSError | Some b \<Rightarrow> decode b)"

definition Image_save :: "env \<Rightarrow> world \<Rightarrow> pil_image \<Rightarrow> string \<Rightarrow> world \<times> (py_error + unit)" where
  "Image_save e w i p =
     (if writable e p then (w\<lparr>files := (files w)(p \<mapsto> Picture i)\<rparr>, Inr ())
      else (w, Inl OSError))"

definition logging_info :: "string \<Rightarrow> world \<Rightarrow> world" where
  "logging_info msg w = w\<lparr>log_lines := log_lines w @ [msg]\<rparr>"

text \<open>\<open>os.path.join a b\<close> for the two-argument call of line 80: an absolute second
  component discards the first.\<close>

definition path_join :: "string \<Rightarrow> string \<Rightarrow> string" where
  "path_join a b =
     (if b \<noteq> [] \<and> hd b = CHR ''/'' then b
      else if a = [] \<or> last a = CHR ''/'' then a @ b
      else a @ ''/'' @ b)"

text \<open>\<open>s.replace(old, new)\<close> for a non-empty \<open>old\<close>: every non-overlapping
  occurrence, leftmost first.\<close>

fun str_replace :: "string \<Rightarrow> string \<Rightarrow> string \<Rightarrow> string" where
  "str_replace old new [] = []"
| "str_replace old new (c # cs) =
     (if old \<noteq> [] \<and> take (length old) (c # cs) = old
      then new @ str_replace old new (drop (length old - 1) cs)
      else c # str_replace old new cs)"

subsection \<open>The tables\<close>

text \<open>A row of \<open>all_data[useful_fields]\<close> (line 44); \<open>None\<close> is a missing value
  (an absent key or a JSON null, NaN/None in pandas). \<open>index_label\<close> is the row's
  label, the key of the record in the JSON object. The three columns are taken to
  exist, that is, each key occurs in some record; else line 44 raises \<open>KeyError\<close>
  before anything modelled here runs.\<close>

record raw_record =
  index_label :: string
  raw_symbol :: "string option"
  raw_shortName :: "string option"
  raw_logo_url :: "string option"

text \<open>Rows of \<open>clean_data\<close> as the columns are added: after the first \<open>dropna\<close>
  (\<open>stock\<close>), with the column \<open>image\<close> (\<open>logo_row\<close>), and with
  \<open>average_color\<close> (\<open>row\<close>). A row's position is its place in the list
  (\<open>reset_index\<close>). The column \<open>rgb_distance\<close> does not exist until
  \<open>get_recommendation\<close> creates it, so it is kept beside the rows: \<open>None\<close> while
  absent, then one distance per row.\<close>

record stock =
  label :: string
  symbol :: string
  shortName :: string
  logo_url :: string

record logo_row = stock +
  image_col :: pil_image

record row = logo_row +
  average_color :: "rat list"

record system =
  clean_data :: "row list"
  rgb_distance :: "rat list option"
  indices :: "(string \<times> nat) list"
  current_image :: "pil_image option"
  current_histogram :: "int list option"
  current_rgb :: "rat list option"

subsection \<open>The colour signature (lines 94-107)\<close>

text \<open>The slice \<open>xs[i:j]\<close> for \<open>0 \<le> i \<le> j\<close>; it clips at the end of the list.\<close>

definition py_slice :: "nat \<Rightarrow> nat \<Rightarrow> 'a list \<Rightarrow> 'a list" where
  "py_slice i j xs = take (j - i) (drop i xs)"

definition true_div :: "int \<Rightarrow> int \<Rightarrow> py_error + rat" where
  "true_div a b = (if b = 0 then Inl ZeroDivisionError else Inr (rat_of_int a / rat_of_int b))"

text \<open>\<open>sum(i * w for i, w in enumerate(c)) / sum(c)\<close>\<close>

definition weighted_average :: "int list \<Rightarrow> py_error + rat" where
  "weighted_average c =
     true_div (sum_list (map (\<lambda>(i, w). int i * w) (enumerate 0 c))) (sum_list c)"

definition average_color_from_histogram :: "int list \<Rightarrow> py_error + rat list" where
  "average_color_from_histogram input_histogram =
     (let r = py_slice 0 256 input_histogram;
          g = py_slice 256 (256 * 2) input_histogram;
          b = py_slice (256 * 2) (256 * 3) input_histogram
      in case weighted_average r of Inl e \<Rightarrow> Inl e | Inr x \<Rightarrow>
         (case weighted_average g of Inl e \<Rightarrow> Inl e | Inr y \<Rightarrow>
         (case weighted_average b of Inl e \<Rightarrow> Inl e | Inr z \<Rightarrow> Inr [x, y, z])))"

definition average_image_color :: "'a logo_row_scheme \<Rightarrow> py_error + rat list" where
  "average_image_color r = average_color_from_histogram (histogram (image_col r))"

text \<open>The formula of the specification (4.3), written over bucket indices: bucket
  \<open>j\<close> of a histogram, with no count where the histogram has no entry, and the
  weighted mean of the 256 buckets of channel \<open>c\<close>.\<close>

definition bucket :: "int list \<Rightarrow> nat \<Rightarrow> int" where
  "bucket h j = (if j < length h then h ! j else 0)"

definition channel_total :: "int list \<Rightarrow> nat \<Rightarrow> int" where
  "channel_total h c = (\<Sum>i<256. bucket h (256 * c + i))"

definition spec_weighted_mean :: "int list \<Rightarrow> nat \<Rightarrow> rat" where
  "spec_weighted_mean h c =
     rat_of_int (\<Sum>i<256. int i * bucket h (256 * c + i)) / rat_of_int (channel_total h c)"

subsection \<open>The distance (lines 109-110)\<close>

text \<open>
  Modelled from the spec: \<open>scipy.stats.wasserstein_distance\<close>, a library function
  that is not part of the repository's sources. The specification (4.5) describes it
  as the 1-D Earth-Mover's / Wasserstein distance between two signatures, each read as
  a distribution over its three values. For two samples with equal weights that is the
  area between the two empirical distribution functions: over the sorted values of both
  samples, the sum of the gaps between neighbours, each weighted by the absolute
  difference of the two distribution functions on that gap.
\<close>

definition cdf_at :: "rat list \<Rightarrow> rat \<Rightarrow> rat" where
  "cdf_at u x = rat_of_nat (length (filter (\<lambda>y. y \<le> x) u)) / rat_of_nat (length u)"

definition wasserstein_distance :: "rat list \<Rightarrow> rat list \<Rightarrow> rat" where
  "wasserstein_distance u v =
     (let all_values = sort (u @ v)
      in sum_list (map (\<lambda>(a, b). \<bar>cdf_at u a - cdf_at v a\<bar> * (b - a))
                       (zip all_values (tl all_values))))"

text \<open>
  The two functions the ranking takes from its libraries, as parameters of the model:
  \<open>scipy.stats.wasserstein_distance\<close> (on the signatures as the model holds them)
  and the order that \<open>Series.argsort()\<close> gives to positions of equal value, as a rank
  \<open>tie_break ds i\<close> of position \<open>i\<close> in the column \<open>ds\<close>. The default sort of the
  library is not stable, so nothing is assumed of the rank. What is proved of the
  program holds for every library.
\<close>

record library =
  wasserstein :: "rat list \<Rightarrow> rat list \<Rightarrow> rat"
  tie_break :: "rat list \<Rightarrow> nat \<Rightarrow> nat"

definition get_rgb_distance :: "library \<Rightarrow> system \<Rightarrow> row \<Rightarrow> py_error + rat" where
  "get_rgb_distance lib st r =
     (case current_rgb st of
        None \<Rightarrow> Inl TypeError
      | Some q \<Rightarrow> Inr (wasserstein lib (average_color r) q))"

subsection \<open>The logo cache (lines 76-92)\<close>

text \<open>Line 80, the cache file of a row, and line 85, the address the logo is
  fetched from: every \<open>https\<close> in the URL is replaced by \<open>http\<close>.\<close>

definition cache_location :: "'a stock_scheme \<Rightarrow> string" where
  "cache_location r = path_join LOGO_CACHE (symbol r @ ''.png'')"

definition fetch_url :: "'a stock_scheme \<Rightarrow> string" where
  "fetch_url r = str_replace ''https'' ''http'' (logo_url r)"

text \<open>The body of the \<open>try\<close> block: the cached file if there is one, else the
  download, stored in the cache.\<close>

definition download_try :: "env \<Rightarrow> world \<Rightarrow> 'a stock_scheme \<Rightarrow> world \<times> (py_error + pil_image)" where
  "download_try e w r =
     (if isfile w (cache_location r) then (w, Image_open w (cache_location r))
      else (case urlopen e (fetch_url r) of
              Inl err \<Rightarrow> (w, Inl err)
            | Inr body \<Rightarrow>
                (case decode body of
                   Inl err \<Rightarrow> (w, Inl err)
                 | Inr logo_image \<Rightarrow>
                     (case Image_save e w logo_image (cache_location r) of
                        (w', Inl err) \<Rightarrow> (w', Inl err)
                      | (w', Inr u) \<Rightarrow> (w', Inr logo_image)))))"

text \<open>The bare \<open>except\<close> turns every error of the block into the result \<open>None\<close>.\<close>

definition download_logos :: "env \<Rightarrow> world \<Rightarrow> 'a stock_scheme \<Rightarrow> world \<times> (py_error + pil_image option)" where
  "download_logos e w r =
     (if logo_url r \<noteq> [] then
        (case download_try e w r of
           (w', Inr i) \<Rightarrow> (w', Inr (Some i))
         | (w', Inl err) \<Rightarrow> (logging_info (''Got an error '' @ shortName r) w', Inr None))
      else (logging_info (''Got an error '' @ shortName r) w, Inr None))"

subsection \<open>Building the catalog (lines 43-59)\<close>

text \<open>\<open>DataFrame.apply(f, axis=1)\<close>: \<open>f\<close> on every row in order; the first exception
  ends the call. \<open>apply_rows_io\<close> is the same for an \<open>f\<close> with effects on the world.
  Both are for a table that has rows; the callers below say what happens on a table
  with none.\<close>

fun apply_rows :: "('a \<Rightarrow> py_error + 'b) \<Rightarrow> 'a list \<Rightarrow> py_error + 'b list" where
  "apply_rows f [] = Inr []"
| "apply_rows f (x # xs) =
     (case f x of
        Inl err \<Rightarrow> Inl err
      | Inr y \<Rightarrow> (case apply_rows f xs of Inl err \<Rightarrow> Inl err | Inr ys \<Rightarrow> Inr (y # ys)))"

fun apply_rows_io ::
  "(world \<Rightarrow> 'a \<Rightarrow> world \<times> (py_error + 'b)) \<Rightarrow> world \<Rightarrow> 'a list \<Rightarrow> world \<times> (py_error + 'b list)" where
  "apply_rows_io f w [] = (w, Inr [])"
| "apply_rows_io f w (x # xs) =
     (case f w x of
        (w1, Inl err) \<Rightarrow> (w1, Inl err)
      | (w1, Inr y) \<Rightarrow>
          (case apply_rows_io f w1 xs of
             (w2, Inl err) \<Rightarrow> (w2, Inl err)
           | (w2, Inr ys) \<Rightarrow> (w2, Inr (y # ys))))"

text \<open>Line 45: \<open>dropna()\<close> on the three useful fields. A row stays when none of its
  fields is missing; an empty string is a value, not a missing one.\<close>

definition complete :: "raw_record \<Rightarrow> bool" where
  "complete r = (raw_symbol r \<noteq> None \<and> raw_shortName r \<noteq> None \<and> raw_logo_url r \<noteq> None)"

fun dropna_fields :: "raw_record list \<Rightarrow> stock list" where
  "dropna_fields [] = []"
| "dropna_fields (r # rs) =
     (case (raw_symbol r, raw_shortName r, raw_logo_url r) of
        (Some s, Some n, Some u) \<Rightarrow>
          \<lparr>label = index_label r, symbol = s, shortName = n, logo_url = u\<rparr> # dropna_fields rs
      | _ \<Rightarrow> dropna_fields rs)"

text \<open>Line 49: \<open>dropna()\<close> after the column \<open>image\<close> is set.\<close>

fun dropna_image :: "(stock \<times> pil_image option) list \<Rightarrow> logo_row list" where
  "dropna_image [] = []"
| "dropna_image ((r, None) # rs) = dropna_image rs"
| "dropna_image ((r, Some i) # rs) =
     \<lparr>label = label r, symbol = symbol r, shortName = shortName r, logo_url = logo_url r,
      image_col = i\<rparr> # dropna_image rs"

text \<open>The three source fields of a row, whatever columns were added to it.\<close>

definition stock_of :: "'a stock_scheme \<Rightarrow> stock" where
  "stock_of r = \<lparr>label = label r, symbol = symbol r, shortName = shortName r, logo_url = logo_url r\<rparr>"

text \<open>\<open>Series.drop_duplicates()\<close>: a series is its (label, value) pairs in order; an
  entry is dropped when its \<^emph>\<open>value\<close> occurred before (\<open>keep='first'\<close>).\<close>

fun drop_duplicates_from :: "'v list \<Rightarrow> ('k \<times> 'v) list \<Rightarrow> ('k \<times> 'v) list" where
  "drop_duplicates_from seen [] = []"
| "drop_duplicates_from seen ((k, v) # kvs) =
     (if v \<in> set seen then drop_duplicates_from seen kvs
      else (k, v) # drop_duplicates_from (v # seen) kvs)"

definition drop_duplicates :: "('k \<times> 'v) list \<Rightarrow> ('k \<times> 'v) list" where
  "drop_duplicates kvs = drop_duplicates_from [] kvs"

text \<open>Line 52: \<open>pd.Series(clean_data.index, index=clean_data['symbol'])\<close>, the positions
  labelled by the symbols, then \<open>drop_duplicates()\<close>.\<close>

definition make_indices :: "'a stock_scheme list \<Rightarrow> (string \<times> nat) list" where
  "make_indices rows = drop_duplicates (zip (map symbol rows) [0..<length rows])"

definition with_average_color :: "logo_row \<Rightarrow> rat list \<Rightarrow> row" where
  "with_average_color r c =
     \<lparr>label = label r, symbol = symbol r, shortName = shortName r, logo_url = logo_url r,
      image_col = image_col r, average_color = c\<rparr>"

text \<open>Line 48 on the rows left by line 45. On a table with no rows
  \<open>DataFrame.apply\<close> calls the function once on a row of NaN to learn the shape of
  the result: NaN is true for line 77, \<open>NaN + ".png"\<close> raises inside the \<open>try\<close>, and
  the \<open>except\<close> logs the name (\<open>nan\<close>) and returns \<open>None\<close>; the new column is empty.\<close>

definition apply_download ::
  "env \<Rightarrow> world \<Rightarrow> stock list \<Rightarrow> world \<times> (py_error + pil_image option list)" where
  "apply_download e w rows =
     (if rows = [] then (logging_info ''Got an error nan'' w, Inr [])
      else apply_rows_io (download_logos e) w rows)"

text \<open>\<open>__init__\<close> from line 43 on. With no record at all the table has no columns and
  line 44 raises \<open>KeyError\<close>. When no row is left at line 55, the call of
  \<open>average_image_color\<close> on the row of NaN raises inside \<open>apply\<close>, which then
  returns the table itself, and assigning a table to the one column \<open>average_color\<close>
  raises \<open>ValueError\<close>: a system that is built has at least one row.\<close>

definition init :: "env \<Rightarrow> world \<Rightarrow> raw_record list \<Rightarrow> world \<times> (py_error + system)" where
  "init e w all_data =
     (if all_data = [] then (w, Inl KeyError)
      else
        (let clean1 = dropna_fields all_data
         in case apply_download e w clean1 of
              (w', Inl err) \<Rightarrow> (w', Inl err)
            | (w', Inr images) \<Rightarrow>
                (let clean2 = dropna_image (zip clean1 images);
                     idx = make_indices clean2
                 in if clean2 = [] then (w', Inl ValueError)
                    else
                      (case apply_rows average_image_color clean2 of
                         Inl err \<Rightarrow> (w', Inl err)
                       | Inr colors \<Rightarrow>
                           (w', Inr \<lparr>clean_data = map2 with_average_color clean2 colors,
                                     rgb_distance = None,
                                     indices = idx,
                                     current_image = None,
                                     current_histogram = None,
                                     current_rgb = None\<rparr>)))))"

subsection \<open>Ranking (lines 112-120)\<close>

text \<open>\<open>argsort()\<close>: the positions in ascending order of their values, positions of
  equal value in the order of the library's rank \<open>tie\<close>. Every \<open>tie\<close> gives an
  ascending order of all positions, and every ascending order of all positions is
  given by some \<open>tie\<close> (lemma \<open>argsort_any_order\<close>).\<close>

definition argsort :: "(rat list \<Rightarrow> nat \<Rightarrow> nat) \<Rightarrow> rat list \<Rightarrow> nat list" where
  "argsort tie ds = sort_key (\<lambda>i. (ds ! i, tie ds i)) [0..<length ds]"

text \<open>\<open>iloc[positions]\<close>; a position outside the table raises.\<close>

definition iloc :: "'a list \<Rightarrow> nat list \<Rightarrow> py_error + 'a list" where
  "iloc xs ps =
     (if list_all (\<lambda>p. p < length xs) ps then Inr (map (\<lambda>p. xs ! p) ps) else Inl IndexError)"

text \<open>\<open>get_recommendation\<close>. On a table with no rows line 117 fails as line 55
  does (the table comes back from \<open>apply\<close> and cannot be assigned to one column); no
  built system has such a table.\<close>

definition get_recommendation ::
  "library \<Rightarrow> world \<Rightarrow> system \<Rightarrow> string
     \<Rightarrow> system \<times> (py_error + (string \<times> string) list \<times> rat list)" where
  "get_recommendation lib w st input_filepath =
     (case Image_open w input_filepath of
        Inl err \<Rightarrow> (st, Inl err)
      | Inr i \<Rightarrow>
          (let st1 = st\<lparr>current_image := Some i\<rparr>;
               st2 = st1\<lparr>current_histogram := Some (histogram i)\<rparr>
           in case average_color_from_histogram (histogram i) of
                Inl err \<Rightarrow> (st2, Inl err)
              | Inr rgb \<Rightarrow>
                  (let st3 = st2\<lparr>current_rgb := Some rgb\<rparr>
                   in if clean_data st3 = [] then (st3, Inl ValueError)
                      else
                        (case apply_rows (get_rgb_distance lib st3) (clean_data st3) of
                           Inl err \<Rightarrow> (st3, Inl err)
                         | Inr ds \<Rightarrow>
                             (let st4 = st3\<lparr>rgb_distance := Some ds\<rparr>;
                                  positions = py_slice 1 6 (argsort (tie_break lib) ds)
                              in case iloc (clean_data st4) positions of
                                   Inl err \<Rightarrow> (st4, Inl err)
                                 | Inr closest_values \<Rightarrow>
                                     (case iloc ds positions of
                                        Inl err \<Rightarrow> (st4, Inl err)
                                      | Inr scores \<Rightarrow>
                                          (st4, Inr (map (\<lambda>r. (symbol r, shortName r))
                                                         closest_values,
                                                     scores))))))))"

text \<open>The distances of a query signature \<open>q\<close> to the rows of the catalog, in
  catalog order: the column that line 117 computes. The two parts of a result.\<close>

definition distances :: "library \<Rightarrow> system \<Rightarrow> rat list \<Rightarrow> rat list" where
  "distances lib st q = map (\<lambda>r. wasserstein lib (average_color r) q) (clean_data st)"

text \<open>The order in which line 118 puts the positions of the catalog.\<close>

definition ranking :: "library \<Rightarrow> system \<Rightarrow> rat list \<Rightarrow> nat list" where
  "ranking lib st q = argsort (tie_break lib) (distances lib st q)"

definition returned_rows ::
  "py_error + (string \<times> string) list \<times> rat list \<Rightarrow> (string \<times> string) list" where
  "returned_rows res = (case res of Inl err \<Rightarrow> [] | Inr (recs, scores) \<Rightarrow> recs)"

definition returned_scores :: "py_error + (string \<times> string) list \<times> rat list \<Rightarrow> rat list" where
  "returned_scores res = (case res of Inl err \<Rightarrow> [] | Inr (recs, scores) \<Rightarrow> scores)"

subsection \<open>Example inputs\<close>

text \<open>The histogram of one band of a picture of a single pixel of intensity \<open>v\<close>,
  and of an RGB picture of a single pixel; a one-band (greyscale or palette) picture
  has the 256 buckets of \<open>one_pixel_channel\<close> only.\<close>

definition one_pixel_channel :: "nat \<Rightarrow> int list" where
  "one_pixel_channel v = replicate v 0 @ [1] @ replicate (255 - v) 0"

definition one_pixel_histogram :: "nat \<Rightarrow> nat \<Rightarrow> nat \<Rightarrow> int list" where
  "one_pixel_histogram r g b = one_pixel_channel r @ one_pixel_channel g @ one_pixel_channel b"

definition red_image :: pil_image where
  "red_image = Image (one_pixel_histogram 255 0 0)"

definition grey_image :: pil_image where
  "grey_image = Image (one_pixel_channel 128)"

text \<open>A catalog row whose logo is a single pixel, a system around given rows as
  \<open>__init__\<close> leaves it, a catalog of six, and a file system holding two query
  pictures.\<close>

definition catalog_row :: "string \<Rightarrow> string \<Rightarrow> nat \<Rightarrow> nat \<Rightarrow> nat \<Rightarrow> row" where
  "catalog_row s n r g b =
     \<lparr>label = s, symbol = s, shortName = n, logo_url = ''https://logos.example/'' @ s @ ''.png'',
      image_col = Image (one_pixel_histogram r g b),
      average_color = [rat_of_nat r, rat_of_nat g, rat_of_nat b]\<rparr>"

definition catalog_of :: "row list \<Rightarrow> system" where
  "catalog_of rows =
     \<lparr>clean_data = rows, rgb_distance = None, indices = make_indices rows,
      current_image = None, current_histogram = None, current_rgb = None\<rparr>"

definition six_rows :: "row list" where
  "six_rows =
     [catalog_row ''RED'' ''Red Inc'' 255 0 0,
      catalog_row ''GRN'' ''Green Inc'' 0 255 0,
      catalog_row ''BLU'' ''Blue Inc'' 0 0 255,
      catalog_row ''YEL'' ''Yellow Inc'' 255 255 0,
      catalog_row ''BLK'' ''Black Inc'' 0 0 0,
      catalog_row ''WHT'' ''White Inc'' 255 255 255]"

definition query_world :: world where
  "query_world =
     \<lparr>files = [''static/logo_cache/query.png'' \<mapsto> Picture red_image,
               ''static/logo_cache/grey.png'' \<mapsto> Picture grey_image],
      log_lines = []\<rparr>"

text \<open>A network that serves three files, one of them not a picture, a cache in
  which every path can be written, an empty cache, and raw records.\<close>

definition example_env :: env where
  "example_env =
     \<lparr>urlopen = (\<lambda>u. if u = ''http://logos.example/red.png'' then Inr (Picture red_image)
                      else if u = ''http://logos.example/grey.png'' then Inr (Picture grey_image)
                      else if u = ''http://logos.example/broken.png'' then Inr Garbage
                      else Inl URLError),
      writable = (\<lambda>p. True)\<rparr>"

definition empty_world :: world where
  "empty_world = \<lparr>files = Map.empty, log_lines = []\<rparr>"

definition raw :: "string \<Rightarrow> string option \<Rightarrow> string option \<Rightarrow> string option \<Rightarrow> raw_record" where
  "raw k s n u = \<lparr>index_label = k, raw_symbol = s, raw_shortName = n, raw_logo_url = u\<rparr>"

text \<open>Two records with the same symbol.\<close>

definition duplicate_data :: "raw_record list" where
  "duplicate_data =
     [raw ''X'' (Some ''X'') (Some ''First Inc'') (Some ''https://logos.example/red.png''),
      raw ''X2'' (Some ''X'') (Some ''Second Inc'') (Some ''https://logos.example/red.png'')]"

text \<open>A healthy record and one whose logo is a one-band picture.\<close>

definition grey_data :: "raw_record list" where
  "grey_data =
     [raw ''R'' (Some ''R'') (Some ''Red Inc'') (Some ''https://logos.example/red.png''),
      raw ''G'' (Some ''G'') (Some ''Grey Inc'') (Some ''https://logos.example/grey.png'')]"

text \<open>Two complete records with a record without a symbol, a record with an empty
  \<open>logo_url\<close>, a record whose logo does not decode and one whose logo is not served
  between them; the world and the system that \<open>__init__\<close> builds from them.\<close>

definition mixed_data :: "raw_record list" where
  "mixed_data =
     [raw ''R'' (Some ''R'') (Some ''Red Inc'') (Some ''https://logos.example/red.png''),
      raw ''N'' None (Some ''Nameless Inc'') (Some ''https://logos.example/red.png''),
      raw ''U'' (Some ''U'') (Some ''Url Inc'') (Some []),
      raw ''B'' (Some ''B'') (Some ''Broken Inc'') (Some ''https://logos.example/broken.png''),
      raw ''M'' (Some ''M'') (Some ''Missing Inc'') (Some ''https://logos.example/none.png''),
      raw ''Y'' (Some ''Y'') (Some ''Ruby Inc'') (Some ''https://logos.example/red.png'')]"

definition stock_row :: "string \<Rightarrow> string \<Rightarrow> string \<Rightarrow> string \<Rightarrow> stock" where
  "stock_row k s n u = \<lparr>label = k, symbol = s, shortName = n, logo_url = u\<rparr>"

definition red_row :: "string \<Rightarrow> string \<Rightarrow> string \<Rightarrow> row" where
  "red_row k s n =
     \<lparr>label = k, symbol = s, shortName = n, logo_url = ''https://logos.example/red.png'',
      image_col = red_image, average_color = [255, 0, 0]\<rparr>"

definition mixed_world :: world where
  "mixed_world =
     \<lparr>files = [''static/logo_cache/R.png'' \<mapsto> Picture red_image,
               ''static/logo_cache/Y.png'' \<mapsto> Picture red_image],
      log_lines = [''Got an error Url Inc'', ''Got an error Broken Inc'',
                   ''Got an error Missing Inc'']\<rparr>"

definition mixed_system :: system where
  "mixed_system =
     \<lparr>clean_data = [red_row ''R'' ''R'' ''Red Inc'', red_row ''Y'' ''Y'' ''Ruby Inc''],
      rgb_distance = None, indices = [(''R'', 0), (''Y'', 1)],
      current_image = None, current_histogram = None, current_rgb = None\<rparr>"

text \<open>The library of the specification's words: the distance modelled above, and
  positions of equal distance left in catalog order.\<close>

definition exact_library :: library where
  "exact_library = \<lparr>wasserstein = wasserstein_distance, tie_break = (\<lambda>ds i. 0)\<rparr>"

text \<open>A healthy record, a record with an empty \<open>logo_url\<close> and a record with an
  empty symbol whose logo is not served; a record with an empty display name.\<close>

definition empty_string_data :: "raw_record list" where
  "empty_string_data =
     [raw ''R'' (Some ''R'') (Some ''Red Inc'') (Some ''https://logos.example/red.png''),
      raw ''U'' (Some ''U'') (Some ''Url Inc'') (Some []),
      raw ''S'' (Some []) (Some ''Symbolless Inc'') (Some ''https://logos.example/none.png'')]"

definition unnamed_data :: "raw_record list" where
  "unnamed_data = [raw ''A'' (Some ''A'') (Some []) (Some ''https://logos.example/red.png'')]"

section \<open>Properties\<close>

subsection \<open>The colour signature\<close>

lemma enumerate_weighted_sum:
  "sum_list (map (\<lambda>(i, w). int i * w) (enumerate 0 c)) = (\<Sum>i<length c. int i * c ! i)"
  by (simp add: sum_list_sum_nth nth_enumerate_eq atLeast0LessThan)

lemma slice_weighted_sum:
  "(\<Sum>i<length (py_slice k (k + 256) h). int i * py_slice k (k + 256) h ! i)
     = (\<Sum>i<256. int i * bucket h (k + i))"
proof -
  let ?s = "py_slice k (k + 256) h"
  have "(\<Sum>i<length ?s. int i * ?s ! i) = (\<Sum>i<length ?s. int i * bucket h (k + i))"
    by (rule sum.cong) (auto simp: py_slice_def bucket_def)
  also have "\<dots> = (\<Sum>i<256. int i * bucket h (k + i))"
    by (rule sum.mono_neutral_left) (auto simp: py_slice_def bucket_def)
  finally show ?thesis .
qed

lemma slice_sum: "sum_list (py_slice k (k + 256) h) = (\<Sum>i<256. bucket h (k + i))"
proof -
  let ?s = "py_slice k (k + 256) h"
  have "sum_list ?s = (\<Sum>i<length ?s. ?s ! i)"
    by (simp add: sum_list_sum_nth atLeast0LessThan)
  also have "\<dots> = (\<Sum>i<length ?s. bucket h (k + i))"
    by (rule sum.cong) (auto simp: py_slice_def bucket_def)
  also have "\<dots> = (\<Sum>i<256. bucket h (k + i))"
    by (rule sum.mono_neutral_left) (auto simp: py_slice_def bucket_def)
  finally show ?thesis .
qed

lemma channel_total_slice:
  "channel_total h c = sum_list (py_slice (256 * c) (256 * c + 256) h)"
  by (simp add: channel_total_def slice_sum)

lemma weighted_average_slice:
  "weighted_average (py_slice (256 * c) (256 * c + 256) h) =
     (if channel_total h c = 0 then Inl ZeroDivisionError else Inr (spec_weighted_mean h c))"
  unfolding weighted_average_def enumerate_weighted_sum slice_weighted_sum slice_sum
    true_div_def channel_total_def spec_weighted_mean_def
  by simp

lemma average_color_channels:
  "average_color_from_histogram h =
     (if channel_total h 0 = 0 \<or> channel_total h 1 = 0 \<or> channel_total h 2 = 0
      then Inl ZeroDivisionError
      else Inr [spec_weighted_mean h 0, spec_weighted_mean h 1, spec_weighted_mean h 2])"
  using weighted_average_slice[of 0 h] weighted_average_slice[of 1 h]
    weighted_average_slice[of 2 h]
  by (simp add: average_color_from_histogram_def)

lemma py_slice_take: "j \<le> n \<Longrightarrow> py_slice i j (take n h) = py_slice i j h"
  unfolding py_slice_def by (simp add: drop_take min_def)

lemma average_color_take: "average_color_from_histogram (take 768 h) = average_color_from_histogram h"
  unfolding average_color_from_histogram_def by (simp add: py_slice_take)

lemma length_one_pixel_channel: "v \<le> 255 \<Longrightarrow> length (one_pixel_channel v) = 256"
  by (simp add: one_pixel_channel_def)

lemma weighted_sum_zeros:
  "sum_list (map (\<lambda>(i, w). int i * w) (enumerate n (replicate k 0))) = 0"
  by (induction k arbitrary: n) simp_all

lemma weighted_average_one_pixel: "weighted_average (one_pixel_channel v) = Inr (rat_of_nat v)"
  by (simp add: weighted_average_def one_pixel_channel_def enumerate_append_eq
      weighted_sum_zeros true_div_def sum_list_replicate)

lemma weighted_average_empty: "weighted_average [] = Inl ZeroDivisionError"
  by (simp add: weighted_average_def true_div_def)

lemma average_color_one_pixel:
  assumes "r \<le> 255" "g \<le> 255" "b \<le> 255"
  shows "average_color_from_histogram (one_pixel_histogram r g b)
           = Inr [rat_of_nat r, rat_of_nat g, rat_of_nat b]"
  using assms
  by (simp add: average_color_from_histogram_def one_pixel_histogram_def py_slice_def
      length_one_pixel_channel weighted_average_one_pixel)

lemma average_color_one_band:
  assumes "v \<le> 255"
  shows "average_color_from_histogram (one_pixel_channel v) = Inl ZeroDivisionError"
  using assms
  by (simp add: average_color_from_histogram_def py_slice_def Let_def
      length_one_pixel_channel weighted_average_one_pixel weighted_average_empty)

lemma sum_list_one_pixel_channel: "sum_list (one_pixel_channel v) = 1"
  by (simp add: one_pixel_channel_def sum_list_replicate)

lemma channel_total_one_pixel:
  assumes "r \<le> 255" "g \<le> 255" "b \<le> 255"
  shows "channel_total (one_pixel_histogram r g b) 0 = 1"
    and "channel_total (one_pixel_histogram r g b) 1 = 1"
    and "channel_total (one_pixel_histogram r g b) 2 = 1"
  using assms
  by (simp_all add: channel_total_slice one_pixel_histogram_def py_slice_def
      length_one_pixel_channel sum_list_one_pixel_channel)

text \<open>
  C2. For a histogram whose three channel totals are not zero,
  \<open>average_color_from_histogram\<close> returns the three weighted means
  \<open>sum(bucket_index * bucket_count) / sum(bucket_count)\<close> of the 256 buckets of the
  channels at \<open>[0,256)\<close>, \<open>[256,512)\<close> and \<open>[512,768)\<close>.
\<close>

theorem average_color_is_weighted_mean:
  assumes "channel_total h 0 \<noteq> 0" and "channel_total h 1 \<noteq> 0" and "channel_total h 2 \<noteq> 0"
  shows "average_color_from_histogram h
           = Inr [spec_weighted_mean h 0, spec_weighted_mean h 1, spec_weighted_mean h 2]"
  using assms by (simp add: average_color_channels)

theorem average_color_is_weighted_mean_witness:
  "channel_total (one_pixel_histogram 255 0 0) 0 = 1
   \<and> channel_total (one_pixel_histogram 255 0 0) 1 = 1
   \<and> channel_total (one_pixel_histogram 255 0 0) 2 = 1
   \<and> [spec_weighted_mean (one_pixel_histogram 255 0 0) 0,
      spec_weighted_mean (one_pixel_histogram 255 0 0) 1,
      spec_weighted_mean (one_pixel_histogram 255 0 0) 2] = [255, 0, 0]"
proof -
  let ?h = "one_pixel_histogram 255 0 0"
  have t: "channel_total ?h 0 = 1" "channel_total ?h 1 = 1" "channel_total ?h 2 = 1"
    using channel_total_one_pixel[of 255 0 0] by simp_all
  have "average_color_from_histogram ?h
          = Inr [spec_weighted_mean ?h 0, spec_weighted_mean ?h 1, spec_weighted_mean ?h 2]"
    by (rule average_color_is_weighted_mean) (use t in simp_all)
  moreover have "average_color_from_histogram ?h = Inr [255, 0, 0]"
    using average_color_one_pixel[of 255 0 0] by simp
  ultimately show ?thesis using t by simp
qed

text \<open>
  C10. The signature reads the first 768 entries of the histogram only: two
  histograms that agree there have the same signature (or fail alike), also through
  \<open>average_image_color\<close>; the buckets of a fourth (alpha) band have no effect.
\<close>

theorem average_color_reads_768:
  assumes "take 768 h1 = take 768 h2"
  shows "average_color_from_histogram h1 = average_color_from_histogram h2
         \<and> average_image_color (r\<lparr>image_col := Image h1\<rparr>)
             = average_image_color (r\<lparr>image_col := Image h2\<rparr>)"
proof -
  have "average_color_from_histogram h1 = average_color_from_histogram (take 768 h1)"
    by (simp add: average_color_take)
  also have "\<dots> = average_color_from_histogram h2"
    by (simp add: assms average_color_take)
  finally show ?thesis by (simp add: average_image_color_def)
qed

theorem average_color_reads_768_witness:
  "take 768 (one_pixel_histogram 255 0 0 @ one_pixel_channel 255)
     = take 768 (one_pixel_histogram 255 0 0)
   \<and> average_color_from_histogram (one_pixel_histogram 255 0 0 @ one_pixel_channel 255)
       = Inr [255, 0, 0]"
proof -
  have l: "length (one_pixel_histogram 255 0 0) = 768"
    by (simp add: one_pixel_histogram_def length_one_pixel_channel)
  have t: "take 768 (one_pixel_histogram 255 0 0 @ one_pixel_channel 255)
             = take 768 (one_pixel_histogram 255 0 0)"
    by (simp add: l)
  have v: "average_color_from_histogram (one_pixel_histogram 255 0 0) = Inr [255, 0, 0]"
    using average_color_one_pixel[of 255 0 0] by simp
  have "average_color_from_histogram (one_pixel_histogram 255 0 0 @ one_pixel_channel 255)
          = average_color_from_histogram (one_pixel_histogram 255 0 0)"
    by (rule average_color_reads_768[OF t, THEN conjunct1])
  then have "average_color_from_histogram (one_pixel_histogram 255 0 0 @ one_pixel_channel 255)
          = Inr [255, 0, 0]"
    by (simp only: v)
  with t show ?thesis by (rule conjI)
qed

subsection \<open>The distance\<close>

text \<open>
  C9. The distance is symmetric, \<open>distance(a, b) = distance(b, a)\<close>, and the distance
  of a signature to itself is zero.
\<close>

theorem wasserstein_distance_symmetric_zero:
  "wasserstein_distance a b = wasserstein_distance b a \<and> wasserstein_distance a a = 0"
proof
  have s: "sort (a @ b) = sort (b @ a)"
    by (rule properties_for_sort) (simp_all add: ac_simps)
  show "wasserstein_distance a b = wasserstein_distance b a"
    unfolding wasserstein_distance_def Let_def s
    by (simp add: abs_minus_commute)
  show "wasserstein_distance a a = 0"
    unfolding wasserstein_distance_def Let_def by (simp add: case_prod_unfold)
qed

subsection \<open>Ranking\<close>

lemma apply_rows_total:
  "(\<And>x. x \<in> set xs \<Longrightarrow> f x = Inr (g x)) \<Longrightarrow> apply_rows f xs = Inr (map g xs)"
  by (induction xs) simp_all

lemma length_distances: "length (distances lib st q) = length (clean_data st)"
  by (simp add: distances_def)

lemma set_argsort: "set (argsort tie ds) = {0..<length ds}"
  by (simp add: argsort_def)

lemma length_argsort: "length (argsort tie ds) = length ds"
  by (simp add: argsort_def)

lemma distinct_argsort: "distinct (argsort tie ds)"
  by (simp add: argsort_def)

lemma mset_argsort: "mset (argsort tie ds) = mset [0..<length ds]"
  by (simp add: argsort_def)

lemma sorted_map_fst:
  fixes xs :: "('a::linorder \<times> 'b::linorder) list"
  shows "sorted xs \<Longrightarrow> sorted (map fst xs)"
  by (induction xs) (auto simp: less_eq_prod_def)

lemma sorted_argsort: "sorted (map (\<lambda>j. ds ! j) (argsort tie ds))"
proof -
  have "sorted (map (\<lambda>i. (ds ! i, tie ds i)) (argsort tie ds))"
    unfolding argsort_def by (rule sorted_sort_key)
  from sorted_map_fst[OF this] show ?thesis by (simp add: o_def)
qed

text \<open>Every ascending order of all positions is the \<open>argsort\<close> of some rank: the rank
  of a position is its place in that order.\<close>

lemma filter_single:
  assumes "distinct xs" and "k \<in> set xs" and "\<And>x. x \<in> set xs \<Longrightarrow> P x \<longleftrightarrow> x = k"
  shows "filter P xs = [k]"
  using assms
proof (induction xs)
  case Nil
  then show ?case by simp
next
  case (Cons a xs)
  show ?case
  proof (cases "a = k")
    case True
    with Cons.prems have "\<And>x. x \<in> set xs \<Longrightarrow> \<not> P x" by auto
    then have "filter P xs = []" by (simp add: filter_empty_conv)
    with True Cons.prems(3)[of a] show ?thesis by simp
  next
    case False
    with Cons.prems have "filter P xs = [k]" by (intro Cons.IH) auto
    with False Cons.prems(3)[of a] show ?thesis by simp
  qed
qed

lemma place_in_order:
  assumes "distinct order" and "i < length order"
  shows "length (takeWhile (\<lambda>x. x \<noteq> order ! i) order) = i"
proof -
  have "takeWhile (\<lambda>x. x \<noteq> order ! i) order = take i order"
    by (rule takeWhile_eq_take_P_nth) (use assms in \<open>auto simp: nth_eq_iff_index_eq\<close>)
  with assms(2) show ?thesis by simp
qed

lemma argsort_any_order:
  assumes perm: "mset order = mset [0..<length ds]"
    and asc: "sorted (map (\<lambda>j. ds ! j) order)"
  shows "\<exists>tie. argsort tie ds = order"
proof -
  define place where "place j = length (takeWhile (\<lambda>x. x \<noteq> j) order)" for j
  define key where "key j = (ds ! j, place j)" for j
  have d: "distinct order"
    using perm by (metis distinct_upt mset_eq_imp_distinct_iff)
  have s: "set order = {0..<length ds}"
    using perm by (metis mset_eq_setD set_upt)
  have pl: "place (order ! i) = i" if "i < length order" for i
    unfolding place_def by (rule place_in_order[OF d that])
  have inj: "key x = key k \<longleftrightarrow> x = k" if "x \<in> set order" "k \<in> set order" for x k
  proof -
    from that obtain a b where "a < length order" "order ! a = x" "b < length order" "order ! b = k"
      by (auto simp: in_set_conv_nth)
    then show ?thesis using pl by (auto simp: key_def)
  qed
  have "sorted (map key order)"
  proof (unfold sorted_iff_nth_mono, intro allI impI)
    fix a b
    assume ab: "a \<le> b" "b < length (map key order)"
    then have "ds ! (order ! a) \<le> ds ! (order ! b)"
      using asc by (auto simp: sorted_iff_nth_mono dest!: spec[of _ a] spec[of _ b])
    moreover have "place (order ! a) \<le> place (order ! b)" using ab pl by simp
    ultimately show "map key order ! a \<le> map key order ! b"
      using ab by (auto simp: key_def less_eq_prod_def)
  qed
  moreover have "filter (\<lambda>x. key k = key x) order = filter (\<lambda>x. key k = key x) [0..<length ds]"
    if "k \<in> set order" for k
  proof -
    have "filter (\<lambda>x. key k = key x) order = [k]"
      by (rule filter_single[OF d that]) (use inj that in auto)
    moreover have "filter (\<lambda>x. key k = key x) [0..<length ds] = [k]"
      by (rule filter_single) (use inj that s in auto)
    ultimately show ?thesis by simp
  qed
  ultimately have "sort_key key [0..<length ds] = order"
    using perm by (intro properties_for_sort_key) auto
  then have "argsort (\<lambda>ds. place) ds = order"
    by (simp add: argsort_def key_def[abs_def])
  then show ?thesis by blast
qed

text \<open>The distances along the order are the sorted distances, whatever the rank:
  the scores returned do not depend on the order among equal distances.\<close>

lemma argsort_values: "map (\<lambda>j. ds ! j) (argsort tie ds) = sort ds"
proof -
  have "mset (map (\<lambda>j. ds ! j) (argsort tie ds)) = mset (map (\<lambda>j. ds ! j) [0..<length ds])"
    by (simp add: mset_argsort)
  also have "\<dots> = mset ds" by (simp add: map_nth)
  finally have "mset (map (\<lambda>j. ds ! j) (argsort tie ds)) = mset ds" .
  with sorted_argsort[of ds tie] show ?thesis
    by (intro properties_for_sort[symmetric]) auto
qed

lemma positions_in_range: "list_all (\<lambda>p. p < length ds) (py_slice i j (argsort tie ds))"
proof -
  have "set (py_slice i j (argsort tie ds)) \<subseteq> set (argsort tie ds)"
    unfolding py_slice_def by (meson set_take_subset set_drop_subset subset_trans)
  then show ?thesis by (auto simp: list_all_iff set_argsort)
qed

lemma get_recommendation_success:
  assumes "Image_open w p = Inr i" "average_color_from_histogram (histogram i) = Inr q"
    and "clean_data st \<noteq> []"
  shows "get_recommendation lib w st p =
     (st\<lparr>current_image := Some i, current_histogram := Some (histogram i), current_rgb := Some q,
         rgb_distance := Some (distances lib st q)\<rparr>,
      Inr (map (\<lambda>j. (symbol (clean_data st ! j), shortName (clean_data st ! j)))
               (py_slice 1 6 (ranking lib st q)),
           map (\<lambda>j. distances lib st q ! j) (py_slice 1 6 (ranking lib st q))))"
proof -
  let ?st3 = "st\<lparr>current_image := Some i, current_histogram := Some (histogram i), current_rgb := Some q\<rparr>"
  have a: "apply_rows (get_rgb_distance lib ?st3) (clean_data st) = Inr (distances lib st q)"
    unfolding distances_def by (rule apply_rows_total) (simp add: get_rgb_distance_def)
  have r1: "list_all (\<lambda>p. p < length (clean_data st)) (py_slice 1 6 (ranking lib st q))"
    using positions_in_range[of "distances lib st q" 1 6 "tie_break lib"]
    by (simp add: distances_def ranking_def)
  have r2: "list_all (\<lambda>p. p < length (distances lib st q)) (py_slice 1 6 (ranking lib st q))"
    unfolding ranking_def by (rule positions_in_range)
  show ?thesis
    unfolding get_recommendation_def
    using r1 r2 assms(3)
    by (simp add: assms(1,2) a iloc_def Let_def o_def length_distances ranking_def[symmetric])
qed

lemma returned_scores_sorted:
  assumes "Image_open w p = Inr i" "average_color_from_histogram (histogram i) = Inr q"
    and "clean_data st \<noteq> []"
  shows "returned_scores (snd (get_recommendation lib w st p))
           = take 5 (drop 1 (sort (distances lib st q)))"
proof -
  have "map (\<lambda>j. distances lib st q ! j) (py_slice 1 6 (ranking lib st q))
          = take 5 (drop 1 (map (\<lambda>j. distances lib st q ! j) (ranking lib st q)))"
    by (simp add: py_slice_def take_map drop_map)
  then show ?thesis
    by (simp add: get_recommendation_success[OF assms] returned_scores_def ranking_def
        argsort_values)
qed

lemma argsort_head_least:
  assumes "j < length ds"
  shows "ds ! (argsort tie ds ! 0) \<le> ds ! j"
proof -
  from assms have "j \<in> set (argsort tie ds)" by (simp add: set_argsort)
  then obtain k where k: "k < length (argsort tie ds)" "argsort tie ds ! k = j"
    by (auto simp: in_set_conv_nth)
  have "map (\<lambda>j. ds ! j) (argsort tie ds) ! 0 \<le> map (\<lambda>j. ds ! j) (argsort tie ds) ! k"
    by (rule sorted_nth_mono[OF sorted_argsort]) (use k in simp_all)
  moreover have "0 < length (argsort tie ds)" using k by (cases "argsort tie ds") auto
  ultimately show ?thesis using k by (simp add: nth_map)
qed

lemma argsort_head_not_in_rest:
  assumes "0 < length ds"
  shows "argsort tie ds ! 0 \<notin> set (take n (drop 1 (argsort tie ds)))"
proof -
  have ne: "argsort tie ds \<noteq> []" using assms length_argsort[of tie ds] by auto
  then have "argsort tie ds = argsort tie ds ! 0 # drop 1 (argsort tie ds)"
    by (cases "argsort tie ds") simp_all
  with distinct_argsort[of tie ds] have "argsort tie ds ! 0 \<notin> set (drop 1 (argsort tie ds))"
    by (metis distinct.simps(2))
  then show ?thesis by (meson in_set_takeD)
qed

lemma sorted_top:
  "sorted (map (\<lambda>j. ds ! j) (take n (drop m (argsort tie ds))))"
proof -
  have "map (\<lambda>j. ds ! j) (take n (drop m (argsort tie ds)))
          = take n (drop m (map (\<lambda>j. ds ! j) (argsort tie ds)))"
    by (simp add: take_map drop_map)
  then show ?thesis
    using sorted_argsort[of ds tie] by (simp add: sorted_wrt_take sorted_wrt_drop)
qed

text \<open>
  C1 (as amended). For a catalog of at least six rows and a query picture with a
  signature, whatever distance the library computes and however it orders positions of
  equal distance: \<open>get_recommendation\<close> computes the distance of every row, orders
  all positions ascending by distance, drops the first position of that order (a
  globally closest row) and returns exactly the next five rows with their distances,
  ascending by distance; equal distances can stand next to each other.
\<close>

theorem get_recommendation_ranking:
  assumes "Image_open w p = Inr i"
    and "average_color_from_histogram (histogram i) = Inr q"
    and "6 \<le> length (clean_data st)"
  shows "mset (ranking lib st q) = mset [0..<length (clean_data st)]
     \<and> sorted (map (\<lambda>j. distances lib st q ! j) (ranking lib st q))
     \<and> snd (get_recommendation lib w st p)
         = Inr (map (\<lambda>j. (symbol (clean_data st ! j), shortName (clean_data st ! j)))
                    (take 5 (drop 1 (ranking lib st q))),
                map (\<lambda>j. distances lib st q ! j) (take 5 (drop 1 (ranking lib st q))))
     \<and> length (take 5 (drop 1 (ranking lib st q))) = 5
     \<and> sorted (map (\<lambda>j. distances lib st q ! j) (take 5 (drop 1 (ranking lib st q))))
     \<and> ranking lib st q ! 0 \<notin> set (take 5 (drop 1 (ranking lib st q)))
     \<and> (\<forall>j<length (clean_data st).
           distances lib st q ! (ranking lib st q ! 0) \<le> distances lib st q ! j)"
proof -
  let ?ds = "distances lib st q"
  let ?tie = "tie_break lib"
  have r: "ranking lib st q = argsort ?tie ?ds" by (simp add: ranking_def)
  have n: "length ?ds = length (clean_data st)" by (rule length_distances)
  have ne: "clean_data st \<noteq> []" using assms(3) by auto
  have 1: "mset (argsort ?tie ?ds) = mset [0..<length (clean_data st)]"
    using mset_argsort[of ?tie ?ds] by (simp only: n)
  have 3: "snd (get_recommendation lib w st p)
         = Inr (map (\<lambda>j. (symbol (clean_data st ! j), shortName (clean_data st ! j)))
                    (take 5 (drop 1 (argsort ?tie ?ds))),
                map (\<lambda>j. ?ds ! j) (take 5 (drop 1 (argsort ?tie ?ds))))"
    by (simp add: get_recommendation_success[OF assms(1,2) ne] py_slice_def r)
  have 4: "length (take 5 (drop 1 (argsort ?tie ?ds))) = 5"
    using assms(3) by (simp add: length_argsort n)
  have 6: "argsort ?tie ?ds ! 0 \<notin> set (take 5 (drop 1 (argsort ?tie ?ds)))"
    by (rule argsort_head_not_in_rest) (use assms(3) n in auto)
  have 7: "\<forall>j<length (clean_data st). ?ds ! (argsort ?tie ?ds ! 0) \<le> ?ds ! j"
    using argsort_head_least[of _ ?ds ?tie] by (simp add: n)
  show ?thesis
    unfolding r
    using 1 sorted_argsort[of ?ds ?tie] 3 4 sorted_top[of ?ds 5 1 ?tie] 6 7 by blast
qed

lemma open_query: "Image_open query_world ''static/logo_cache/query.png'' = Inr red_image"
  by (simp add: Image_open_def query_world_def decode_def)

lemma red_signature: "average_color_from_histogram (histogram red_image) = Inr [255, 0, 0]"
  using average_color_one_pixel[of 255 0 0] by (simp add: red_image_def)

lemma distances_six:
  "distances exact_library (catalog_of six_rows) [255, 0, 0] = [0, 0, 0, 85, 85, 170]"
  by (simp add: distances_def catalog_of_def six_rows_def catalog_row_def exact_library_def
      wasserstein_distance_def cdf_at_def)

lemma rows_six: "clean_data (catalog_of six_rows) = six_rows"
  by (simp add: catalog_of_def)

lemma six_rows_signatures:
  "list_all (\<lambda>r. average_image_color r = Inr (average_color r)) six_rows"
  by (simp add: six_rows_def catalog_row_def average_image_color_def average_color_one_pixel)

lemma tie_break_exact: "tie_break exact_library = (\<lambda>ds i. 0)"
  by (simp add: exact_library_def)

lemma ranking_six: "ranking exact_library (catalog_of six_rows) [255, 0, 0] = [0, 1, 2, 3, 4, 5]"
  by (simp add: ranking_def distances_six argsort_def tie_break_exact upt_conv_Cons)

lemma recommend_six:
  "get_recommendation exact_library query_world (catalog_of six_rows) ''static/logo_cache/query.png''
     = (catalog_of six_rows
          \<lparr>current_image := Some red_image, current_histogram := Some (histogram red_image),
           current_rgb := Some [255, 0, 0], rgb_distance := Some [0, 0, 0, 85, 85, 170]\<rparr>,
        Inr (map (\<lambda>j. (symbol (six_rows ! j), shortName (six_rows ! j))) [1, 2, 3, 4, 5],
             [0, 0, 85, 85, 170]))"
proof -
  have ne: "clean_data (catalog_of six_rows) \<noteq> []"
    by (simp add: catalog_of_def six_rows_def)
  show ?thesis
    by (simp add: get_recommendation_success[OF open_query red_signature ne] distances_six
        ranking_six py_slice_def rows_six)
qed

lemma scores_six_any_order:
  assumes "wasserstein lib = wasserstein_distance"
  shows "returned_scores (snd (get_recommendation lib query_world (catalog_of six_rows)
            ''static/logo_cache/query.png'')) = [0, 0, 85, 85, 170]"
proof -
  have ne: "clean_data (catalog_of six_rows) \<noteq> []"
    by (simp add: catalog_of_def six_rows_def)
  have "distances lib (catalog_of six_rows) [255, 0, 0]
          = distances exact_library (catalog_of six_rows) [255, 0, 0]"
    by (simp add: distances_def assms exact_library_def)
  then show ?thesis
    by (simp add: returned_scores_sorted[OF open_query red_signature ne] distances_six)
qed

theorem get_recommendation_ranking_witness:
  "Image_open query_world ''static/logo_cache/query.png'' = Inr red_image
   \<and> average_color_from_histogram (histogram red_image) = Inr [255, 0, 0]
   \<and> 6 \<le> length (clean_data (catalog_of six_rows))
   \<and> length (returned_rows (snd (get_recommendation exact_library query_world
                (catalog_of six_rows) ''static/logo_cache/query.png''))) = 5
   \<and> take 2 (returned_scores (snd (get_recommendation exact_library query_world
                (catalog_of six_rows) ''static/logo_cache/query.png''))) = [0, 0]"
proof -
  have l: "6 \<le> length (clean_data (catalog_of six_rows))"
    by (simp add: catalog_of_def six_rows_def)
  note t = get_recommendation_ranking[OF open_query red_signature l, of exact_library]
  from t have "snd (get_recommendation exact_library query_world (catalog_of six_rows)
                     ''static/logo_cache/query.png'')
     = Inr (map (\<lambda>j. (symbol (clean_data (catalog_of six_rows) ! j),
                         shortName (clean_data (catalog_of six_rows) ! j)))
                (take 5 (drop 1 (ranking exact_library (catalog_of six_rows) [255, 0, 0]))),
            map (\<lambda>j. distances exact_library (catalog_of six_rows) [255, 0, 0] ! j)
                (take 5 (drop 1 (ranking exact_library (catalog_of six_rows) [255, 0, 0]))))"
    by blast
  then have "length (returned_rows (snd (get_recommendation exact_library query_world
                (catalog_of six_rows) ''static/logo_cache/query.png''))) = 5
   \<and> take 2 (returned_scores (snd (get_recommendation exact_library query_world
                (catalog_of six_rows) ''static/logo_cache/query.png''))) = [0, 0]"
    by (simp add: returned_rows_def returned_scores_def ranking_six distances_six)
  with open_query red_signature l show ?thesis by blast
qed

text \<open>Against C1 as stated: of six rows, three are at distance 0 from a red query
  (their signatures are the query's values in another order), so whichever of them
  is dropped, the first two distances returned are both 0: not strictly ascending.
  The scores are the same for every order among them (lemma
  \<open>scores_six_any_order\<close>).\<close>

theorem get_recommendation_ties_counterexample:
  "6 \<le> length (clean_data (catalog_of six_rows))
   \<and> length (returned_rows (snd (get_recommendation exact_library query_world
                (catalog_of six_rows) ''static/logo_cache/query.png''))) = 5
   \<and> take 2 (returned_scores (snd (get_recommendation exact_library query_world
                (catalog_of six_rows) ''static/logo_cache/query.png''))) = [0, 0]
   \<and> \<not> sorted_wrt (<) (returned_scores (snd (get_recommendation exact_library query_world
                (catalog_of six_rows) ''static/logo_cache/query.png'')))"
  by (simp add: recommend_six returned_rows_def returned_scores_def rows_six)
    (simp add: six_rows_def)

text \<open>
  C8. With exactly one row in the catalog, \<open>get_recommendation\<close> (which returns at
  most five rows) returns no row and no score, and raises nothing, for every query
  picture that has a signature and for every library.
\<close>

theorem get_recommendation_single_entry:
  assumes "Image_open w p = Inr i"
    and "average_color_from_histogram (histogram i) = Inr q"
    and "length (clean_data st) = 1"
  shows "snd (get_recommendation lib w st p) = Inr ([], [])"
proof -
  have ne: "clean_data st \<noteq> []" using assms(3) by auto
  have "length (ranking lib st q) = 1"
    by (simp add: ranking_def length_argsort length_distances assms(3))
  then have "py_slice 1 6 (ranking lib st q) = []"
    by (simp add: py_slice_def)
  then show ?thesis
    by (simp add: get_recommendation_success[OF assms(1,2) ne])
qed

theorem get_recommendation_single_entry_witness:
  "Image_open query_world ''static/logo_cache/query.png'' = Inr red_image
   \<and> average_color_from_histogram (histogram red_image) = Inr [255, 0, 0]
   \<and> length (clean_data (catalog_of [catalog_row ''RED'' ''Red Inc'' 255 0 0])) = 1
   \<and> snd (get_recommendation exact_library query_world
            (catalog_of [catalog_row ''RED'' ''Red Inc'' 255 0 0])
            ''static/logo_cache/query.png'') = Inr ([], [])"
proof -
  have l: "length (clean_data (catalog_of [catalog_row ''RED'' ''Red Inc'' 255 0 0])) = 1"
    by (simp add: catalog_of_def)
  from get_recommendation_single_entry[OF open_query red_signature l, of exact_library]
    open_query red_signature l
  show ?thesis by blast
qed

text \<open>
  C4 (as amended). \<open>get_recommendation\<close> leaves the rows of the catalog (every field,
  and their order) and the symbol-to-position series unchanged, whether it returns or
  raises. It does write the system's \<open>current_image\<close>, \<open>current_histogram\<close> and
  \<open>current_rgb\<close> and the column \<open>rgb_distance\<close>.
\<close>

theorem get_recommendation_frame:
  "clean_data (fst (get_recommendation lib w st p)) = clean_data st
   \<and> indices (fst (get_recommendation lib w st p)) = indices st"
  unfolding get_recommendation_def
  by (simp add: Let_def split: sum.splits)

text \<open>Against C4 as stated: the call changes shared state of the system.\<close>

theorem get_recommendation_state_counterexample:
  "current_rgb (catalog_of six_rows) = None
   \<and> current_rgb (fst (get_recommendation exact_library query_world (catalog_of six_rows)
                         ''static/logo_cache/query.png'')) = Some [255, 0, 0]
   \<and> rgb_distance (catalog_of six_rows) = None
   \<and> rgb_distance (fst (get_recommendation exact_library query_world (catalog_of six_rows)
                           ''static/logo_cache/query.png'')) = Some [0, 0, 0, 85, 85, 170]
   \<and> fst (get_recommendation exact_library query_world (catalog_of six_rows)
            ''static/logo_cache/query.png'')
       \<noteq> catalog_of six_rows"
proof -
  let ?st' = "fst (get_recommendation exact_library query_world (catalog_of six_rows)
                     ''static/logo_cache/query.png'')"
  have a: "current_rgb (catalog_of six_rows) = None" "rgb_distance (catalog_of six_rows) = None"
    by (simp_all add: catalog_of_def)
  have b: "current_rgb ?st' = Some [255, 0, 0]" "rgb_distance ?st' = Some [0, 0, 0, 85, 85, 170]"
    by (simp_all add: recommend_six)
  from a(1) b(1) have "?st' \<noteq> catalog_of six_rows" by auto
  with a b show ?thesis by blast
qed

subsection \<open>Example runs\<close>

lemma red_image_color: "average_color_from_histogram (one_pixel_histogram 255 0 0) = Inr [255, 0, 0]"
  using average_color_one_pixel[of 255 0 0] by simp

lemma grey_image_color: "average_color_from_histogram (one_pixel_channel 128) = Inl ZeroDivisionError"
  by (rule average_color_one_band) simp

lemma make_indices_all: "make_indices rows = zip (map symbol rows) [0..<length rows]"
proof -
  have "distinct (map snd kvs) \<Longrightarrow> set (map snd kvs) \<inter> set seen = {}
          \<Longrightarrow> drop_duplicates_from seen kvs = kvs" for kvs :: "(string \<times> nat) list" and seen
    by (induction kvs arbitrary: seen) auto
  from this[of "zip (map symbol rows) [0..<length rows]" "[]"]
  show ?thesis by (simp add: make_indices_def drop_duplicates_def)
qed

lemmas build_simps =
  Let_def apply_download_def raw_def download_logos_def download_try_def cache_location_def fetch_url_def path_join_def
  LOGO_CACHE_def isfile_def Image_open_def Image_save_def decode_def logging_info_def
  example_env_def empty_world_def average_image_color_def red_image_def grey_image_def
  red_image_color grey_image_color with_average_color_def make_indices_all stock_row_def
  red_row_def

lemma init_duplicate:
  "snd (init example_env empty_world duplicate_data) =
     Inr \<lparr>clean_data = [red_row ''X'' ''X'' ''First Inc'', red_row ''X2'' ''X'' ''Second Inc''],
          rgb_distance = None,
          indices = [(''X'', 0), (''X'', 1)],
          current_image = None, current_histogram = None, current_rgb = None\<rparr>"
  by (simp add: init_def duplicate_data_def build_simps upt_conv_Cons)

lemma download_grey:
  "apply_rows_io (download_logos example_env) empty_world (dropna_fields grey_data) =
     (\<lparr>files = [''static/logo_cache/R.png'' \<mapsto> Picture red_image,
                ''static/logo_cache/G.png'' \<mapsto> Picture grey_image],
       log_lines = []\<rparr>,
      Inr [Some red_image, Some grey_image])"
  by (simp add: grey_data_def build_simps)

lemma init_grey:
  "init example_env empty_world grey_data =
     (\<lparr>files = [''static/logo_cache/R.png'' \<mapsto> Picture red_image,
                ''static/logo_cache/G.png'' \<mapsto> Picture grey_image],
       log_lines = []\<rparr>,
      Inl ZeroDivisionError)"
  by (simp add: init_def grey_data_def build_simps)

lemma download_mixed:
  "apply_rows_io (download_logos example_env) empty_world (dropna_fields mixed_data) =
     (mixed_world, Inr [Some red_image, None, None, None, Some red_image])"
  by (simp add: mixed_data_def mixed_world_def build_simps)

lemma init_mixed:
  "init example_env empty_world mixed_data = (mixed_world, Inr mixed_system)"
  by (simp add: init_def mixed_data_def mixed_world_def mixed_system_def build_simps upt_conv_Cons)

lemma init_unnamed:
  "snd (init example_env empty_world unnamed_data) =
     Inr \<lparr>clean_data = [red_row ''A'' ''A'' []],
          rgb_distance = None, indices = [(''A'', 0)],
          current_image = None, current_histogram = None, current_rgb = None\<rparr>"
  by (simp add: init_def unnamed_data_def build_simps)

lemma init_empty_strings:
  "init example_env empty_world empty_string_data =
     (\<lparr>files = [''static/logo_cache/R.png'' \<mapsto> Picture red_image],
       log_lines = [''Got an error Url Inc'', ''Got an error Symbolless Inc'']\<rparr>,
      Inr \<lparr>clean_data = [red_row ''R'' ''R'' ''Red Inc''],
          rgb_distance = None, indices = [(''R'', 0)],
          current_image = None, current_histogram = None, current_rgb = None\<rparr>)"
  by (simp add: init_def empty_string_data_def build_simps)

lemma dropna_empty_strings:
  "dropna_fields empty_string_data =
     [stock_row ''R'' ''R'' ''Red Inc'' ''https://logos.example/red.png'',
      stock_row ''U'' ''U'' ''Url Inc'' [],
      stock_row ''S'' [] ''Symbolless Inc'' ''https://logos.example/none.png'']"
  by (simp add: empty_string_data_def build_simps)

lemma distances_mixed: "distances exact_library mixed_system [255, 0, 0] = [0, 0]"
  by (simp add: distances_def mixed_system_def red_row_def exact_library_def
      wasserstein_distance_def cdf_at_def)

lemma recommend_mixed:
  "snd (get_recommendation exact_library query_world mixed_system ''static/logo_cache/query.png'')
     = Inr ([(''Y'', ''Ruby Inc'')], [0])"
proof -
  have ne: "clean_data mixed_system \<noteq> []" by (simp add: mixed_system_def)
  have r: "ranking exact_library mixed_system [255, 0, 0] = [0, 1]"
    by (simp add: ranking_def distances_mixed argsort_def tie_break_exact upt_conv_Cons)
  show ?thesis
    by (simp add: get_recommendation_success[OF open_query red_signature ne] distances_mixed
        r py_slice_def)
      (simp add: mixed_system_def red_row_def)
qed

lemma open_grey: "Image_open query_world ''static/logo_cache/grey.png'' = Inr grey_image"
  by (simp add: Image_open_def query_world_def decode_def)

lemma grey_channel_total: "channel_total (one_pixel_channel 128) 1 = 0"
  by (simp add: channel_total_slice py_slice_def length_one_pixel_channel)

subsection \<open>The logo cache and the catalog build\<close>

lemma download_logos_returns: "\<exists>w' res. download_logos e w r = (w', Inr res)"
  by (auto simp: download_logos_def split: prod.splits sum.splits)

lemma download_logos_None_iff:
  "snd (download_logos e w r) = Inr None \<longleftrightarrow> logo_url r = [] \<or> isl (snd (download_try e w r))"
  by (auto simp: download_logos_def isl_def split: prod.splits sum.splits)

lemma download_logos_Some: "download_logos e w r = (w', Inr (Some i)) \<Longrightarrow> logo_url r \<noteq> []"
  by (auto simp: download_logos_def split: prod.splits sum.splits if_splits)

lemma download_logos_empty_url:
  "logo_url r = [] \<Longrightarrow> download_logos e w r = (logging_info (''Got an error '' @ shortName r) w, Inr None)"
  by (simp add: download_logos_def)

lemma download_try_network_error:
  "\<not> isfile w (cache_location r) \<Longrightarrow> urlopen e (fetch_url r) = Inl err \<Longrightarrow> snd (download_try e w r) = Inl err"
  by (simp add: download_try_def)

lemma download_try_decode_failure:
  "\<not> isfile w (cache_location r) \<Longrightarrow> urlopen e (fetch_url r) = Inr Garbage
     \<Longrightarrow> snd (download_try e w r) = Inl UnidentifiedImageError"
  by (simp add: download_try_def decode_def)

lemma apply_download_returns:
  "\<exists>w' images. apply_rows_io (download_logos e) w rows = (w', Inr images)"
proof (induction rows arbitrary: w)
  case Nil
  show ?case by simp
next
  case (Cons r rows)
  obtain w1 res where d: "download_logos e w r = (w1, Inr res)"
    using download_logos_returns by blast
  obtain w2 images where "apply_rows_io (download_logos e) w1 rows = (w2, Inr images)"
    using Cons.IH by blast
  with d show ?case by simp
qed

lemma apply_rows_io_length: "apply_rows_io f w xs = (w', Inr ys) \<Longrightarrow> length ys = length xs"
  by (induction xs arbitrary: w w' ys) (auto split: prod.splits sum.splits)

lemma apply_rows_io_results:
  "apply_rows_io f w xs = (w', Inr ys) \<Longrightarrow> (x, y) \<in> set (zip xs ys)
     \<Longrightarrow> \<exists>w0 w1. f w0 x = (w1, Inr y)"
proof (induction xs arbitrary: w w' ys)
  case Nil
  then show ?case by simp
next
  case (Cons a xs)
  from Cons.prems(1) obtain wa ya ys' where
    s: "f w a = (wa, Inr ya)" "apply_rows_io f wa xs = (w', Inr ys')" "ys = ya # ys'"
    by (auto split: prod.splits sum.splits)
  with Cons.prems(2) have "(x, y) = (a, ya) \<or> (x, y) \<in> set (zip xs ys')" by simp
  then show ?case
  proof
    assume "(x, y) = (a, ya)"
    with s(1) show ?thesis by blast
  next
    assume "(x, y) \<in> set (zip xs ys')"
    with Cons.IH[OF s(2)] show ?thesis .
  qed
qed

lemma apply_rows_length: "apply_rows f xs = Inr ys \<Longrightarrow> length ys = length xs"
  by (induction xs arbitrary: ys) (auto split: sum.splits)

lemma apply_rows_error:
  assumes "\<And>x e'. f x = Inl e' \<Longrightarrow> e' = E" and "\<exists>x\<in>set xs. f x = Inl E"
  shows "apply_rows f xs = Inl E"
  using assms(2)
proof (induction xs)
  case Nil
  then show ?case by simp
next
  case (Cons x xs)
  show ?case
  proof (cases "f x")
    case (Inl e')
    with assms(1) show ?thesis by auto
  next
    case (Inr y)
    with Cons.prems have "\<exists>x\<in>set xs. f x = Inl E" by auto
    with Cons.IH Inr show ?thesis by simp
  qed
qed

lemma stock_of_stock: "stock_of (r :: stock) = r"
  by (simp add: stock_of_def)

lemma dropna_image_map:
  "map stock_of (dropna_image zs) = map fst (filter (\<lambda>(r, i). i \<noteq> None) zs)"
  by (induction zs rule: dropna_image.induct) (simp_all add: stock_of_def)

lemma dropna_image_keeps:
  "(r, Some i) \<in> set zs \<Longrightarrow> \<exists>r'\<in>set (dropna_image zs). image_col r' = i"
  by (induction zs rule: dropna_image.induct) auto

lemma dropna_fields_filter: "dropna_fields (filter complete xs) = dropna_fields xs"
  by (induction xs) (auto simp: complete_def split: option.splits)

lemma dropna_fields_source:
  "r \<in> set (dropna_fields xs) \<Longrightarrow>
     \<exists>x\<in>set xs. index_label x = label r \<and> raw_symbol x = Some (symbol r)
        \<and> raw_shortName x = Some (shortName r) \<and> raw_logo_url x = Some (logo_url r)"
  by (induction xs) (auto split: option.splits)

lemma dropna_fields_keeps:
  "x \<in> set xs \<Longrightarrow> raw_symbol x = Some s \<Longrightarrow> raw_shortName x = Some n \<Longrightarrow> raw_logo_url x = Some u
     \<Longrightarrow> \<lparr>label = index_label x, symbol = s, shortName = n, logo_url = u\<rparr> \<in> set (dropna_fields xs)"
  by (induction xs) (auto split: option.splits)

lemma dropna_fields_iff:
  "r \<in> set (dropna_fields xs) \<longleftrightarrow>
     (\<exists>x\<in>set xs. index_label x = label r \<and> raw_symbol x = Some (symbol r)
        \<and> raw_shortName x = Some (shortName r) \<and> raw_logo_url x = Some (logo_url r))"
proof
  assume "r \<in> set (dropna_fields xs)"
  then show "\<exists>x\<in>set xs. index_label x = label r \<and> raw_symbol x = Some (symbol r)
        \<and> raw_shortName x = Some (shortName r) \<and> raw_logo_url x = Some (logo_url r)"
    by (rule dropna_fields_source)
next
  assume "\<exists>x\<in>set xs. index_label x = label r \<and> raw_symbol x = Some (symbol r)
        \<and> raw_shortName x = Some (shortName r) \<and> raw_logo_url x = Some (logo_url r)"
  then obtain x where x: "x \<in> set xs" "index_label x = label r" "raw_symbol x = Some (symbol r)"
    "raw_shortName x = Some (shortName r)" "raw_logo_url x = Some (logo_url r)" by blast
  from dropna_fields_keeps[OF x(1,3,4,5)] x(2) show "r \<in> set (dropna_fields xs)"
    by (cases r) simp
qed

lemma dropna_fields_empty: "dropna_fields xs = [] \<longleftrightarrow> filter complete xs = []"
  by (induction xs) (auto simp: complete_def split: option.splits)

lemma init_filter:
  "filter complete all_data \<noteq> [] \<Longrightarrow> init e w all_data = init e w (filter complete all_data)"
  by (auto simp: init_def dropna_fields_filter)

lemma init_world:
  "all_data \<noteq> [] \<Longrightarrow> fst (init e w all_data) = fst (apply_download e w (dropna_fields all_data))"
  by (auto simp: init_def Let_def split: prod.splits sum.splits)

lemma download_logos_log:
  "set (log_lines w) \<subseteq> set (log_lines (fst (download_logos e w r)))"
  by (auto simp: download_logos_def download_try_def Image_save_def logging_info_def
      split: prod.splits sum.splits if_splits)

lemma apply_download_log_mono:
  "set (log_lines w) \<subseteq> set (log_lines (fst (apply_rows_io (download_logos e) w rows)))"
proof (induction rows arbitrary: w)
  case Nil
  show ?case by simp
next
  case (Cons r rows)
  obtain w1 res where d: "download_logos e w r = (w1, Inr res)"
    using download_logos_returns by blast
  obtain w2 images where a: "apply_rows_io (download_logos e) w1 rows = (w2, Inr images)"
    using apply_download_returns by blast
  from download_logos_log[of w e r] d have "set (log_lines w) \<subseteq> set (log_lines w1)" by simp
  moreover from Cons.IH[of w1] a have "set (log_lines w1) \<subseteq> set (log_lines w2)" by simp
  ultimately show ?case using d a by auto
qed

lemma apply_download_logs_empty_url:
  assumes "r \<in> set rows" and "logo_url r = []"
  shows "''Got an error '' @ shortName r
           \<in> set (log_lines (fst (apply_rows_io (download_logos e) w rows)))"
  using assms(1)
proof (induction rows arbitrary: w)
  case Nil
  then show ?case by simp
next
  case (Cons a rows)
  obtain w1 res where d: "download_logos e w a = (w1, Inr res)"
    using download_logos_returns by blast
  obtain w2 images where ap: "apply_rows_io (download_logos e) w1 rows = (w2, Inr images)"
    using apply_download_returns by blast
  have f: "fst (apply_rows_io (download_logos e) w (a # rows)) = w2"
    using d ap by simp
  show ?case
  proof (cases "r = a")
    case True
    with assms(2) d have "''Got an error '' @ shortName r \<in> set (log_lines w1)"
      by (auto simp: download_logos_def logging_info_def)
    moreover from apply_download_log_mono[of w1 e rows] ap
    have "set (log_lines w1) \<subseteq> set (log_lines w2)" by simp
    ultimately show ?thesis using f by auto
  next
    case False
    with Cons.prems have "r \<in> set rows" by simp
    from Cons.IH[OF this, of w1] ap f show ?thesis by simp
  qed
qed

lemma init_logs_empty_url:
  assumes "x \<in> set all_data" and "raw_symbol x = Some s" and "raw_shortName x = Some n"
    and "raw_logo_url x = Some []"
  shows "''Got an error '' @ n \<in> set (log_lines (fst (init e w all_data)))"
proof -
  let ?r = "\<lparr>label = index_label x, symbol = s, shortName = n, logo_url = []\<rparr>"
  have m: "?r \<in> set (dropna_fields all_data)"
    by (rule dropna_fields_keeps[OF assms])
  then have ne: "dropna_fields all_data \<noteq> []" by auto
  from assms(1) have "all_data \<noteq> []" by auto
  then have "fst (init e w all_data) = fst (apply_rows_io (download_logos e) w (dropna_fields all_data))"
    using ne by (simp add: init_world apply_download_def)
  with apply_download_logs_empty_url[OF m, of e w] show ?thesis by simp
qed

lemma init_success:
  assumes "init e w all_data = (w', Inr sys)"
  obtains images colors where
    "apply_rows_io (download_logos e) w (dropna_fields all_data) = (w', Inr images)"
    "apply_rows average_image_color (dropna_image (zip (dropna_fields all_data) images)) = Inr colors"
    "clean_data sys = map2 with_average_color (dropna_image (zip (dropna_fields all_data) images)) colors"
    "indices sys = make_indices (dropna_image (zip (dropna_fields all_data) images))"
  using assms
  by (auto simp: init_def Let_def apply_download_def split: prod.splits sum.splits if_splits)

lemma stock_of_with_average_color: "stock_of (with_average_color r c) = stock_of r"
  by (simp add: stock_of_def with_average_color_def)

lemma map_stock_of_colors:
  "length cs = length rs \<Longrightarrow> map stock_of (map2 with_average_color rs cs) = map stock_of rs"
  by (induction rs cs rule: list_induct2') (simp_all add: stock_of_with_average_color)

lemma init_catalog_rows:
  assumes "apply_rows_io (download_logos e) w (dropna_fields all_data) = (w1, Inr images)"
    and "init e w all_data = (w', Inr sys)"
  shows "map stock_of (clean_data sys)
           = map fst (filter (\<lambda>(r, i). i \<noteq> None) (zip (dropna_fields all_data) images))"
proof -
  from assms(2) obtain images' colors where
    a: "apply_rows_io (download_logos e) w (dropna_fields all_data) = (w', Inr images')"
    and c: "apply_rows average_image_color (dropna_image (zip (dropna_fields all_data) images')) = Inr colors"
    and d: "clean_data sys = map2 with_average_color (dropna_image (zip (dropna_fields all_data) images')) colors"
    by (rule init_success)
  from a assms(1) have i: "images' = images" by simp
  have "map stock_of (clean_data sys)
          = map stock_of (dropna_image (zip (dropna_fields all_data) images'))"
    unfolding d by (rule map_stock_of_colors[OF apply_rows_length[OF c]])
  also have "\<dots> = map fst (filter (\<lambda>(r, i). i \<noteq> None) (zip (dropna_fields all_data) images'))"
    by (rule dropna_image_map)
  finally show ?thesis unfolding i .
qed

lemma init_row_source:
  assumes "init e w all_data = (w', Inr sys)" and "r \<in> set (clean_data sys)"
  shows "logo_url r \<noteq> [] \<and>
     (\<exists>x\<in>set all_data. index_label x = label r \<and> raw_symbol x = Some (symbol r)
        \<and> raw_shortName x = Some (shortName r) \<and> raw_logo_url x = Some (logo_url r))"
proof -
  from assms(1) obtain images colors where
    a: "apply_rows_io (download_logos e) w (dropna_fields all_data) = (w', Inr images)"
    by (rule init_success)
  let ?zs = "zip (dropna_fields all_data) images"
  have "stock_of r \<in> set (map stock_of (clean_data sys))" using assms(2) by simp
  then have "stock_of r \<in> set (map fst (filter (\<lambda>(r, i). i \<noteq> None) ?zs))"
    by (simp only: init_catalog_rows[OF a assms(1)])
  then obtain i where z: "(stock_of r, Some i) \<in> set ?zs" by auto
  then have m: "stock_of r \<in> set (dropna_fields all_data)" by (rule set_zip_leftD)
  from apply_rows_io_results[OF a z] have "logo_url (stock_of r) \<noteq> []"
    using download_logos_Some by blast
  moreover from dropna_fields_source[OF m] have
    "\<exists>x\<in>set all_data. index_label x = label (stock_of r) \<and> raw_symbol x = Some (symbol (stock_of r))
        \<and> raw_shortName x = Some (shortName (stock_of r)) \<and> raw_logo_url x = Some (logo_url (stock_of r))" .
  ultimately show ?thesis by (simp add: stock_of_def)
qed

lemma get_recommendation_rows:
  assumes "snd (get_recommendation lib w st p) = Inr (recs, scores)"
  shows "set recs \<subseteq> (\<lambda>r. (symbol r, shortName r)) ` set (clean_data st)"
  using assms
  by (auto simp: get_recommendation_def Let_def iloc_def list_all_iff
      split: sum.splits if_splits)

lemma average_image_color_error: "average_image_color r = Inl e' \<Longrightarrow> e' = ZeroDivisionError"
  by (auto simp: average_image_color_def average_color_channels split: if_splits)

lemma init_zero_channel:
  assumes "channel_total h 0 = 0 \<or> channel_total h 1 = 0 \<or> channel_total h 2 = 0"
    and "apply_rows_io (download_logos e) w (dropna_fields all_data) = (w1, Inr images)"
    and "Some (Image h) \<in> set images"
  shows "init e w all_data = (w1, Inl ZeroDivisionError)"
proof -
  let ?rows = "dropna_fields all_data"
  have l: "length images = length ?rows" by (rule apply_rows_io_length[OF assms(2)])
  from assms(3) obtain k where k: "k < length images" "images ! k = Some (Image h)"
    by (auto simp: in_set_conv_nth)
  with l have "(?rows ! k, Some (Image h)) \<in> set (zip ?rows images)"
    by (auto simp: set_zip)
  then obtain r' where r': "r' \<in> set (dropna_image (zip ?rows images))" "image_col r' = Image h"
    using dropna_image_keeps by blast
  have "average_image_color r' = Inl ZeroDivisionError"
    using assms(1) r'(2) by (simp add: average_image_color_def average_color_channels)
  with r'(1) have "apply_rows average_image_color (dropna_image (zip ?rows images)) = Inl ZeroDivisionError"
    by (intro apply_rows_error average_image_color_error) auto
  moreover from r'(1) have "dropna_image (zip ?rows images) \<noteq> []" by auto
  moreover from k l have "?rows \<noteq> []" by auto
  moreover from this have "all_data \<noteq> []" by auto
  ultimately show ?thesis by (simp add: init_def apply_download_def assms(2))
qed

text \<open>
  C3. The claim: with two records of the same symbol, the symbol-to-position series
  has unique keys and keeps the first occurrence only. The code at this input:
  \<open>drop_duplicates()\<close> compares the values of the series, the positions, which are
  all different, so both entries of the symbol \<open>X\<close> stay.
\<close>

theorem duplicate_symbols_kept:
  "snd (init example_env empty_world duplicate_data) =
     Inr \<lparr>clean_data = [red_row ''X'' ''X'' ''First Inc'', red_row ''X2'' ''X'' ''Second Inc''],
          rgb_distance = None,
          indices = [(''X'', 0), (''X'', 1)],
          current_image = None, current_histogram = None, current_rgb = None\<rparr>"
  by (rule init_duplicate)

text \<open>
  C5 (as amended). For a histogram with a channel whose total is zero,
  \<open>average_color_from_histogram\<close> raises \<open>ZeroDivisionError\<close> (it returns no
  value); nothing catches it. A query picture with such a histogram makes
  \<open>get_recommendation\<close> raise it to its caller, and a logo with such a histogram
  makes the whole catalog build raise it: no catalog is built.
\<close>

theorem zero_channel_raises:
  assumes "channel_total h 0 = 0 \<or> channel_total h 1 = 0 \<or> channel_total h 2 = 0"
  shows "average_color_from_histogram h = Inl ZeroDivisionError
     \<and> (Image_open w p = Inr (Image h)
          \<longrightarrow> snd (get_recommendation lib w st p) = Inl ZeroDivisionError)
     \<and> (apply_rows_io (download_logos e) w0 (dropna_fields all_data) = (w1, Inr images)
            \<and> Some (Image h) \<in> set images
          \<longrightarrow> init e w0 all_data = (w1, Inl ZeroDivisionError))"
proof -
  have a: "average_color_from_histogram h = Inl ZeroDivisionError"
    using assms by (simp add: average_color_channels)
  have b: "snd (get_recommendation lib w st p) = Inl ZeroDivisionError"
    if "Image_open w p = Inr (Image h)"
    using that a by (simp add: get_recommendation_def)
  have c: "init e w0 all_data = (w1, Inl ZeroDivisionError)"
    if "apply_rows_io (download_logos e) w0 (dropna_fields all_data) = (w1, Inr images)"
      and "Some (Image h) \<in> set images"
    using init_zero_channel[OF assms that] .
  from a b c show ?thesis by blast
qed

theorem zero_channel_raises_witness:
  "channel_total (one_pixel_channel 128) 1 = 0
   \<and> average_color_from_histogram (one_pixel_channel 128) = Inl ZeroDivisionError
   \<and> Image_open query_world ''static/logo_cache/grey.png'' = Inr (Image (one_pixel_channel 128))
   \<and> snd (get_recommendation exact_library query_world (catalog_of six_rows) ''static/logo_cache/grey.png'')
       = Inl ZeroDivisionError
   \<and> snd (apply_rows_io (download_logos example_env) empty_world (dropna_fields grey_data))
       = Inr [Some red_image, Some (Image (one_pixel_channel 128))]
   \<and> snd (init example_env empty_world grey_data) = Inl ZeroDivisionError"
proof -
  have z: "channel_total (one_pixel_channel 128) 0 = 0 \<or> channel_total (one_pixel_channel 128) 1 = 0
             \<or> channel_total (one_pixel_channel 128) 2 = 0"
    using grey_channel_total by blast
  have o: "Image_open query_world ''static/logo_cache/grey.png'' = Inr (Image (one_pixel_channel 128))"
    using open_grey by (simp add: grey_image_def)
  have d: "apply_rows_io (download_logos example_env) empty_world (dropna_fields grey_data) =
     (\<lparr>files = [''static/logo_cache/R.png'' \<mapsto> Picture red_image,
                ''static/logo_cache/G.png'' \<mapsto> Picture grey_image],
       log_lines = []\<rparr>,
      Inr [Some red_image, Some (Image (one_pixel_channel 128))])"
    using download_grey by (simp add: grey_image_def)
  note t = zero_channel_raises[OF z, where w = query_world
      and p = "''static/logo_cache/grey.png''" and st = "catalog_of six_rows"
      and lib = exact_library and e = example_env and ?w0.0 = empty_world
      and all_data = grey_data
      and images = "[Some red_image, Some (Image (one_pixel_channel 128))]"]
  from t have 1: "average_color_from_histogram (one_pixel_channel 128) = Inl ZeroDivisionError"
    by (rule conjunct1)
  from t o have 2: "snd (get_recommendation exact_library query_world (catalog_of six_rows) ''static/logo_cache/grey.png'')
       = Inl ZeroDivisionError" by blast
  from t d have 3: "snd (init example_env empty_world grey_data) = Inl ZeroDivisionError"
    by simp
  from grey_channel_total 1 o 2 d 3 show ?thesis by simp
qed

text \<open>Against C5 as stated: a one-band logo beside a healthy record is not left out
  of the catalog; the build ends with the error.\<close>

theorem zero_channel_aborts_build_counterexample:
  "map raw_symbol grey_data = [Some ''R'', Some ''G'']
   \<and> snd (apply_rows_io (download_logos example_env) empty_world (dropna_fields grey_data))
       = Inr [Some red_image, Some grey_image]
   \<and> average_color_from_histogram (histogram red_image) = Inr [255, 0, 0]
   \<and> average_color_from_histogram (histogram grey_image) = Inl ZeroDivisionError
   \<and> snd (init example_env empty_world grey_data) = Inl ZeroDivisionError"
  by (simp add: download_grey init_grey red_signature)
    (simp add: grey_data_def raw_def grey_image_def grey_image_color)

text \<open>
  C7. \<open>download_logos\<close> never raises. Its result is \<open>None\<close> exactly when the URL is
  empty or the \<open>try\<close> block raised, in particular on a network error and on a
  response that does not decode; applying it to all rows never raises, and the catalog
  holds exactly the rows whose result is not \<open>None\<close>, in order.
\<close>

theorem download_logos_never_raises:
  "(\<exists>res. snd (download_logos e w r) = Inr res)
   \<and> (snd (download_logos e w r) = Inr None
        \<longleftrightarrow> logo_url r = [] \<or> isl (snd (download_try e w r)))
   \<and> (\<not> isfile w (cache_location r) \<and> urlopen e (fetch_url r) = Inl err
        \<longrightarrow> snd (download_logos e w r) = Inr None)
   \<and> (\<not> isfile w (cache_location r) \<and> urlopen e (fetch_url r) = Inr Garbage
        \<longrightarrow> snd (download_logos e w r) = Inr None)
   \<and> (\<exists>w1 images. apply_rows_io (download_logos e) w (dropna_fields all_data) = (w1, Inr images))
   \<and> (apply_rows_io (download_logos e) w (dropna_fields all_data) = (w1, Inr images)
          \<and> init e w all_data = (w', Inr sys)
        \<longrightarrow> map stock_of (clean_data sys)
              = map fst (filter (\<lambda>(r, i). i \<noteq> None) (zip (dropna_fields all_data) images)))"
proof -
  have 1: "\<exists>res. snd (download_logos e w r) = Inr res"
    using download_logos_returns[of e w r] by auto
  have 3: "snd (download_logos e w r) = Inr None"
    if "\<not> isfile w (cache_location r)" "urlopen e (fetch_url r) = Inl err"
    using download_try_network_error[OF that] by (simp add: download_logos_None_iff)
  have 4: "snd (download_logos e w r) = Inr None"
    if "\<not> isfile w (cache_location r)" "urlopen e (fetch_url r) = Inr Garbage"
    using download_try_decode_failure[OF that] by (simp add: download_logos_None_iff)
  from 1 download_logos_None_iff[of e w r] 3 4 apply_download_returns[of e w "dropna_fields all_data"]
    init_catalog_rows[of e w all_data w1 images w' sys]
  show ?thesis by blast
qed

theorem download_logos_never_raises_witness:
  "snd (download_logos example_env empty_world (stock_row ''U'' ''U'' ''Url Inc'' [])) = Inr None
   \<and> urlopen example_env (fetch_url (stock_row ''M'' ''M'' ''Missing Inc'' ''https://logos.example/none.png''))
       = Inl URLError
   \<and> snd (download_logos example_env empty_world
            (stock_row ''M'' ''M'' ''Missing Inc'' ''https://logos.example/none.png'')) = Inr None
   \<and> urlopen example_env (fetch_url (stock_row ''B'' ''B'' ''Broken Inc'' ''https://logos.example/broken.png''))
       = Inr Garbage
   \<and> snd (download_logos example_env empty_world
            (stock_row ''B'' ''B'' ''Broken Inc'' ''https://logos.example/broken.png'')) = Inr None
   \<and> apply_rows_io (download_logos example_env) empty_world (dropna_fields mixed_data)
       = (mixed_world, Inr [Some red_image, None, None, None, Some red_image])
   \<and> init example_env empty_world mixed_data = (mixed_world, Inr mixed_system)
   \<and> map stock_of (clean_data mixed_system)
       = [stock_row ''R'' ''R'' ''Red Inc'' ''https://logos.example/red.png'',
          stock_row ''Y'' ''Y'' ''Ruby Inc'' ''https://logos.example/red.png'']"
proof -
  let ?u = "stock_row ''U'' ''U'' ''Url Inc'' []"
  let ?m = "stock_row ''M'' ''M'' ''Missing Inc'' ''https://logos.example/none.png''"
  let ?b = "stock_row ''B'' ''B'' ''Broken Inc'' ''https://logos.example/broken.png''"
  have nf: "\<not> isfile empty_world (cache_location r)" for r :: stock
    by (simp add: isfile_def empty_world_def)
  have um: "urlopen example_env (fetch_url ?m) = Inl URLError"
    by (simp add: example_env_def fetch_url_def stock_row_def)
  have ub: "urlopen example_env (fetch_url ?b) = Inr Garbage"
    by (simp add: example_env_def fetch_url_def stock_row_def)
  have 1: "snd (download_logos example_env empty_world ?u) = Inr None"
    using download_logos_never_raises[of example_env empty_world ?u]
    by (simp add: stock_row_def)
  have 2: "snd (download_logos example_env empty_world ?m) = Inr None"
    using download_logos_never_raises[of example_env empty_world ?m URLError] nf[of ?m] um
    by blast
  have 3: "snd (download_logos example_env empty_world ?b) = Inr None"
    using download_logos_never_raises[of example_env empty_world ?b] nf[of ?b] ub
    by blast
  have "map stock_of (clean_data mixed_system)
          = map fst (filter (\<lambda>(r, i). i \<noteq> None)
              (zip (dropna_fields mixed_data) [Some red_image, None, None, None, Some red_image]))"
    using download_logos_never_raises[of example_env empty_world _ _ mixed_data mixed_world
        "[Some red_image, None, None, None, Some red_image]" mixed_world mixed_system]
      download_mixed init_mixed by blast
  then have 4: "map stock_of (clean_data mixed_system)
       = [stock_row ''R'' ''R'' ''Red Inc'' ''https://logos.example/red.png'',
          stock_row ''Y'' ''Y'' ''Ruby Inc'' ''https://logos.example/red.png'']"
    by (simp add: mixed_data_def raw_def stock_row_def)
  from 1 um 2 ub 3 download_mixed init_mixed 4 show ?thesis by blast
qed

text \<open>
  C6 (as amended). The filtering keeps exactly the records with all three fields
  present, also when a value is the empty string; a record with a missing value is
  dropped before \<open>download_logos\<close> runs, which is applied to the kept rows only, so
  as long as one record is complete the build is the build of the complete records
  alone. A record with an empty \<open>logo_url\<close> is passed to \<open>download_logos\<close>, which
  logs it and returns \<open>None\<close> without reading the cache or the network. Every row of
  the catalog, and every recommended pair, comes from a record with all three fields
  present and a non-empty \<open>logo_url\<close>.
\<close>

theorem incomplete_records_dropped:
  "(r \<in> set (dropna_fields all_data) \<longleftrightarrow>
      (\<exists>x\<in>set all_data. index_label x = label r \<and> raw_symbol x = Some (symbol r)
         \<and> raw_shortName x = Some (shortName r) \<and> raw_logo_url x = Some (logo_url r)))
   \<and> (all_data \<noteq> []
        \<longrightarrow> fst (init e w all_data) = fst (apply_download e w (dropna_fields all_data)))
   \<and> (filter complete all_data \<noteq> []
        \<longrightarrow> init e w all_data = init e w (filter complete all_data))
   \<and> (logo_url r = []
        \<longrightarrow> download_logos e w r = (logging_info (''Got an error '' @ shortName r) w, Inr None))
   \<and> (x \<in> set all_data \<and> raw_symbol x = Some s \<and> raw_shortName x = Some n
          \<and> raw_logo_url x = Some []
        \<longrightarrow> ''Got an error '' @ n \<in> set (log_lines (fst (init e w all_data))))
   \<and> (init e w all_data = (w', Inr sys)
        \<longrightarrow> (\<forall>c\<in>set (clean_data sys). logo_url c \<noteq> [] \<and>
               (\<exists>x\<in>set all_data. complete x \<and> index_label x = label c
                  \<and> raw_symbol x = Some (symbol c) \<and> raw_shortName x = Some (shortName c)
                  \<and> raw_logo_url x = Some (logo_url c))))
   \<and> (init e w all_data = (w', Inr sys) \<and> clean_data st = clean_data sys
          \<and> snd (get_recommendation lib w2 st p) = Inr (recs, scores)
        \<longrightarrow> (\<forall>(s, n)\<in>set recs.
               \<exists>x\<in>set all_data. complete x \<and> raw_symbol x = Some s \<and> raw_shortName x = Some n
                  \<and> raw_logo_url x \<noteq> Some []))"
proof -
  have src: "logo_url c \<noteq> [] \<and>
               (\<exists>x\<in>set all_data. complete x \<and> index_label x = label c
                  \<and> raw_symbol x = Some (symbol c) \<and> raw_shortName x = Some (shortName c)
                  \<and> raw_logo_url x = Some (logo_url c))"
    if i: "init e w all_data = (w', Inr sys)" and c: "c \<in> set (clean_data sys)" for c
  proof -
    from init_row_source[OF i c] obtain x where
      x: "logo_url c \<noteq> []" "x \<in> set all_data" "index_label x = label c"
         "raw_symbol x = Some (symbol c)" "raw_shortName x = Some (shortName c)"
         "raw_logo_url x = Some (logo_url c)"
      by blast
    then have "complete x" by (simp add: complete_def)
    with x show ?thesis by blast
  qed
  have rec: "\<exists>x\<in>set all_data. complete x \<and> raw_symbol x = Some s \<and> raw_shortName x = Some n
                  \<and> raw_logo_url x \<noteq> Some []"
    if i: "init e w all_data = (w', Inr sys)" and e: "clean_data st = clean_data sys"
      and g: "snd (get_recommendation lib w2 st p) = Inr (recs, scores)" and m: "(s, n) \<in> set recs"
    for s n
  proof -
    from get_recommendation_rows[OF g] m e obtain c where
      c: "c \<in> set (clean_data sys)" "s = symbol c" "n = shortName c" by auto
    from src[OF i c(1)] c(2,3) show ?thesis by force
  qed
  have 1: "r \<in> set (dropna_fields all_data) \<longleftrightarrow>
      (\<exists>x\<in>set all_data. index_label x = label r \<and> raw_symbol x = Some (symbol r)
         \<and> raw_shortName x = Some (shortName r) \<and> raw_logo_url x = Some (logo_url r))"
    by (rule dropna_fields_iff)
  have 5: "''Got an error '' @ n \<in> set (log_lines (fst (init e w all_data)))"
    if "x \<in> set all_data" "raw_symbol x = Some s" "raw_shortName x = Some n"
       "raw_logo_url x = Some []"
    using init_logs_empty_url[OF that] .
  have 6: "\<forall>c\<in>set (clean_data sys). logo_url c \<noteq> [] \<and>
               (\<exists>x\<in>set all_data. complete x \<and> index_label x = label c
                  \<and> raw_symbol x = Some (symbol c) \<and> raw_shortName x = Some (shortName c)
                  \<and> raw_logo_url x = Some (logo_url c))"
    if "init e w all_data = (w', Inr sys)"
    using src[OF that] by blast
  have 7: "\<forall>(s, n)\<in>set recs.
               \<exists>x\<in>set all_data. complete x \<and> raw_symbol x = Some s \<and> raw_shortName x = Some n
                  \<and> raw_logo_url x \<noteq> Some []"
    if "init e w all_data = (w', Inr sys)" "clean_data st = clean_data sys"
       "snd (get_recommendation lib w2 st p) = Inr (recs, scores)"
    using rec[OF that] by blast
  show ?thesis
    using 1 init_world[of all_data e w] init_filter[of all_data e w]
      download_logos_empty_url[of r e w] 5 6 7
    by (intro conjI impI) blast+
qed

theorem incomplete_records_dropped_witness:
  "init example_env empty_world mixed_data = (mixed_world, Inr mixed_system)
   \<and> map index_label (filter complete mixed_data) = [''R'', ''U'', ''B'', ''M'', ''Y'']
   \<and> init example_env empty_world (filter complete mixed_data) = (mixed_world, Inr mixed_system)
   \<and> fst (apply_download example_env empty_world (dropna_fields mixed_data)) = mixed_world
   \<and> stock_row ''U'' ''U'' ''Url Inc'' [] \<in> set (dropna_fields mixed_data)
   \<and> download_logos example_env empty_world (stock_row ''U'' ''U'' ''Url Inc'' [])
       = (\<lparr>files = Map.empty, log_lines = [''Got an error Url Inc'']\<rparr>, Inr None)
   \<and> ''Got an error Url Inc'' \<in> set (log_lines mixed_world)
   \<and> map symbol (clean_data mixed_system) = [''R'', ''Y'']
   \<and> snd (get_recommendation exact_library query_world mixed_system ''static/logo_cache/query.png'')
       = Inr ([(''Y'', ''Ruby Inc'')], [0])"
proof -
  let ?u = "stock_row ''U'' ''U'' ''Url Inc'' []"
  let ?x = "raw ''U'' (Some ''U'') (Some ''Url Inc'') (Some [])"
  note t = incomplete_records_dropped[where all_data = mixed_data and e = example_env
      and w = empty_world and r = ?u and w' = mixed_world and sys = mixed_system
      and x = ?x and s = "''U''" and n = "''Url Inc''"]
  have x: "?x \<in> set mixed_data" "raw_symbol ?x = Some ''U''" "raw_shortName ?x = Some ''Url Inc''"
    "raw_logo_url ?x = Some []" "index_label ?x = label ?u"
    by (simp_all add: mixed_data_def raw_def stock_row_def)
  have 3: "map index_label (filter complete mixed_data) = [''R'', ''U'', ''B'', ''M'', ''Y'']"
    by (simp add: mixed_data_def raw_def complete_def)
  then have ne: "filter complete mixed_data \<noteq> []" by auto
  from t ne have "init example_env empty_world mixed_data
                = init example_env empty_world (filter complete mixed_data)"
    by blast
  with init_mixed have 1: "init example_env empty_world (filter complete mixed_data)
                = (mixed_world, Inr mixed_system)" by simp
  have "mixed_data \<noteq> []" using ne by auto
  with t have "fst (init example_env empty_world mixed_data)
                = fst (apply_download example_env empty_world (dropna_fields mixed_data))"
    by blast
  then have 0: "fst (apply_download example_env empty_world (dropna_fields mixed_data)) = mixed_world"
    by (simp add: init_mixed)
  from t have "?u \<in> set (dropna_fields mixed_data) \<longleftrightarrow>
      (\<exists>x\<in>set mixed_data. index_label x = label ?u \<and> raw_symbol x = Some (symbol ?u)
         \<and> raw_shortName x = Some (shortName ?u) \<and> raw_logo_url x = Some (logo_url ?u))"
    by (rule conjunct1)
  moreover have "\<exists>x\<in>set mixed_data. index_label x = label ?u \<and> raw_symbol x = Some (symbol ?u)
         \<and> raw_shortName x = Some (shortName ?u) \<and> raw_logo_url x = Some (logo_url ?u)"
    by (rule bexI[OF _ x(1)]) (simp add: raw_def stock_row_def)
  ultimately have 4: "?u \<in> set (dropna_fields mixed_data)" by blast
  from t have 2: "download_logos example_env empty_world ?u
       = (\<lparr>files = Map.empty, log_lines = [''Got an error Url Inc'']\<rparr>, Inr None)"
    by (simp add: stock_row_def logging_info_def empty_world_def)
  from t x have "''Got an error '' @ ''Url Inc''
       \<in> set (log_lines (fst (init example_env empty_world mixed_data)))"
    by blast
  then have 5: "''Got an error Url Inc'' \<in> set (log_lines mixed_world)"
    by (simp add: init_mixed)
  have 6: "map symbol (clean_data mixed_system) = [''R'', ''Y'']"
    by (simp add: mixed_system_def red_row_def)
  from init_mixed 3 1 0 4 2 5 6 recommend_mixed show ?thesis by blast
qed

text \<open>Against C6 as stated: beside a healthy record, a record with an empty
  \<open>logo_url\<close> and a record with an empty symbol are kept by the filter and reach
  \<open>download_logos\<close>, which logs both; and a record with an empty display name is a
  row of the catalog.\<close>

theorem empty_fields_counterexample:
  "map raw_logo_url empty_string_data
     = [Some ''https://logos.example/red.png'', Some [], Some ''https://logos.example/none.png'']
   \<and> map raw_symbol empty_string_data = [Some ''R'', Some ''U'', Some []]
   \<and> dropna_fields empty_string_data =
       [stock_row ''R'' ''R'' ''Red Inc'' ''https://logos.example/red.png'',
        stock_row ''U'' ''U'' ''Url Inc'' [],
        stock_row ''S'' [] ''Symbolless Inc'' ''https://logos.example/none.png'']
   \<and> log_lines (fst (init example_env empty_world empty_string_data))
       = [''Got an error Url Inc'', ''Got an error Symbolless Inc'']
   \<and> map raw_shortName unnamed_data = [Some []]
   \<and> snd (init example_env empty_world unnamed_data) =
       Inr \<lparr>clean_data = [red_row ''A'' ''A'' []],
            rgb_distance = None, indices = [(''A'', 0)],
            current_image = None, current_histogram = None, current_rgb = None\<rparr>"
  by (simp add: init_unnamed init_empty_strings dropna_empty_strings)
    (simp add: unnamed_data_def empty_string_data_def raw_def)

end
